theory Spec2Isabelle
  imports Main "HOL-Library.Char_ord" "HOL-Library.List_Lexorder" "HOL-Library.Sublist"
    "HOL-Library.Multiset"
begin

section \<open>Python values\<close>

text \<open>
  The endpoint manager (\<^verbatim>\<open>scripts/endpoint-manager.py\<close>) handles values that come out of
  \<^verbatim>\<open>json.loads\<close> and \<^verbatim>\<open>json.load\<close>. They are modelled by the datatype below. A Python
  \<^verbatim>\<open>dict\<close> is an association list in insertion order with one binding per key, which is
  what the JSON decoder builds. Strings hold code points below 256. JSON numbers with a
  fraction or an exponent (Python floats) are outside the model.
\<close>

datatype json =
  JNull
  | JBool bool
  | JInt int
  | JStr string
  | JArr "json list"
  | JObj "(string \<times> json) list"

type_synonym dict = "(string \<times> json) list"

text \<open>\<^verbatim>\<open>key in d\<close>, \<^verbatim>\<open>d.get(key, default)\<close> and \<^verbatim>\<open>d.setdefault(key, value)\<close>.\<close>

definition dict_has :: "dict \<Rightarrow> string \<Rightarrow> bool" where
  "dict_has d k = (map_of d k \<noteq> None)"

definition dict_get :: "dict \<Rightarrow> string \<Rightarrow> json \<Rightarrow> json" where
  "dict_get d k dflt = (case map_of d k of None \<Rightarrow> dflt | Some v \<Rightarrow> v)"

definition setdefault :: "dict \<Rightarrow> string \<Rightarrow> json \<Rightarrow> dict" where
  "setdefault d k v = (if dict_has d k then d else d @ [(k, v)])"

text \<open>
  Python's \<^verbatim>\<open>==\<close> on these values: \<^verbatim>\<open>True == 1\<close> and \<^verbatim>\<open>False == 0\<close> hold, lists are
  compared element by element, dicts by their bindings whatever the order.
\<close>

fun py_eq :: "json \<Rightarrow> json \<Rightarrow> bool"
  and py_eq_list :: "json list \<Rightarrow> json list \<Rightarrow> bool"
  and py_eq_items :: "dict \<Rightarrow> dict \<Rightarrow> bool" where
  "py_eq JNull b = (b = JNull)"
| "py_eq (JBool x) b =
     (case b of JBool y \<Rightarrow> x = y | JInt j \<Rightarrow> (if x then 1 else 0) = j | _ \<Rightarrow> False)"
| "py_eq (JInt i) b =
     (case b of JBool y \<Rightarrow> i = (if y then 1 else 0) | JInt j \<Rightarrow> i = j | _ \<Rightarrow> False)"
| "py_eq (JStr s) b = (b = JStr s)"
| "py_eq (JArr xs) b = (case b of JArr ys \<Rightarrow> py_eq_list xs ys | _ \<Rightarrow> False)"
| "py_eq (JObj d) b =
     (case b of JObj e \<Rightarrow> length d = length e \<and> py_eq_items d e | _ \<Rightarrow> False)"
| "py_eq_list [] ys = (ys = [])"
| "py_eq_list (x # xs) ys =
     (case ys of [] \<Rightarrow> False | y # ys' \<Rightarrow> py_eq x y \<and> py_eq_list xs ys')"
| "py_eq_items [] e = True"
| "py_eq_items ((k, v) # d) e =
     ((case map_of e k of None \<Rightarrow> False | Some w \<Rightarrow> py_eq v w) \<and> py_eq_items d e)"

text \<open>Truthiness, as tested by \<^verbatim>\<open>if not config\<close>.\<close>

fun py_truthy :: "json \<Rightarrow> bool" where
  "py_truthy JNull = False"
| "py_truthy (JBool b) = b"
| "py_truthy (JInt i) = (i \<noteq> 0)"
| "py_truthy (JStr s) = (s \<noteq> [])"
| "py_truthy (JArr xs) = (xs \<noteq> [])"
| "py_truthy (JObj d) = (d \<noteq> [])"

fun py_type_name :: "json \<Rightarrow> string" where
  "py_type_name JNull = ''NoneType''"
| "py_type_name (JBool b) = ''bool''"
| "py_type_name (JInt i) = ''int''"
| "py_type_name (JStr s) = ''str''"
| "py_type_name (JArr xs) = ''list''"
| "py_type_name (JObj d) = ''dict''"

subsection \<open>\<^verbatim>\<open>repr\<close> and \<^verbatim>\<open>str\<close>\<close>

definition sq :: char where "sq = CHR 0x27"
definition dq :: char where "dq = CHR 0x22"
definition backslash :: char where "backslash = CHR 0x5C"

definition quoted :: "string \<Rightarrow> string" where
  "quoted s = [sq] @ s @ [sq]"

definition hex_digit :: "nat \<Rightarrow> char" where
  "hex_digit n = ''0123456789abcdef'' ! (n mod 16)"

definition printable :: "char \<Rightarrow> bool" where
  "printable c =
     (let n = (of_char c :: nat)
      in (32 \<le> n \<and> n < 127) \<or> (161 \<le> n \<and> n \<noteq> 173))"

definition escape_char :: "char \<Rightarrow> char \<Rightarrow> string" where
  "escape_char quote c =
     (if c = quote \<or> c = backslash then [backslash, c]
      else if c = CHR 0x09 then [backslash, CHR ''t'']
      else if c = CHR 0x0A then [backslash, CHR ''n'']
      else if c = CHR 0x0D then [backslash, CHR ''r'']
      else if printable c then [c]
      else [backslash, CHR ''x'', hex_digit (of_char c div 16), hex_digit (of_char c)])"

definition py_repr_str :: "string \<Rightarrow> string" where
  "py_repr_str s =
     (let quote = (if sq \<in> set s \<and> dq \<notin> set s then dq else sq)
      in [quote] @ concat (map (escape_char quote) s) @ [quote])"

fun join :: "string \<Rightarrow> string list \<Rightarrow> string" where
  "join sep [] = []"
| "join sep [x] = x"
| "join sep (x # y # ys) = x @ sep @ join sep (y # ys)"

function str_nat :: "nat \<Rightarrow> string" where
  "str_nat n =
     (if n < 10 then [char_of (48 + n)] else str_nat (n div 10) @ [char_of (48 + n mod 10)])"
  by pat_completeness auto
termination
  by (relation "measure (\<lambda>n. n)") auto

definition str_int :: "int \<Rightarrow> string" where
  "str_int i = (if i < 0 then ''-'' @ str_nat (nat (- i)) else str_nat (nat i))"

fun py_repr :: "json \<Rightarrow> string"
  and py_repr_list :: "json list \<Rightarrow> string list"
  and py_repr_items :: "dict \<Rightarrow> string list" where
  "py_repr JNull = ''None''"
| "py_repr (JBool b) = (if b then ''True'' else ''False'')"
| "py_repr (JInt i) = str_int i"
| "py_repr (JStr s) = py_repr_str s"
| "py_repr (JArr xs) = ''['' @ join '', '' (py_repr_list xs) @ '']''"
| "py_repr (JObj d) = ''{'' @ join '', '' (py_repr_items d) @ ''}''"
| "py_repr_list [] = []"
| "py_repr_list (x # xs) = py_repr x # py_repr_list xs"
| "py_repr_items [] = []"
| "py_repr_items ((k, v) # d) = (py_repr_str k @ '': '' @ py_repr v) # py_repr_items d"

text \<open>What an f-string inserts for \<^verbatim>\<open>{value}\<close>.\<close>

definition py_str :: "json \<Rightarrow> string" where
  "py_str v = (case v of JStr s \<Rightarrow> s | _ \<Rightarrow> py_repr v)"

subsection \<open>Exceptions\<close>

text \<open>
  Every exception the program meets derives from \<^verbatim>\<open>Exception\<close>. The handlers tell
  \<^verbatim>\<open>ImportError\<close> (with its subclasses) from the rest, so the class is kept together with
  the text that \<^verbatim>\<open>str(e)\<close> gives.
\<close>

datatype exn =
  ImportError string
  | ValueError string
  | RuntimeError string
  | AttributeError string
  | OSError string
  | OtherException string

fun str_exn :: "exn \<Rightarrow> string" where
  "str_exn (ImportError m) = m"
| "str_exn (ValueError m) = m"
| "str_exn (RuntimeError m) = m"
| "str_exn (AttributeError m) = m"
| "str_exn (OSError m) = m"
| "str_exn (OtherException m) = m"

fun is_import_error :: "exn \<Rightarrow> bool" where
  "is_import_error (ImportError m) = True"
| "is_import_error _ = False"

section \<open>Validation\<close>

text \<open>
  \<^verbatim>\<open>validate_endpoint_config(config)\<close> raises \<^verbatim>\<open>ValueError\<close> or updates \<^verbatim>\<open>config\<close> in
  place; the model returns the updated dict.
\<close>

definition required_fields :: "string list" where
  "required_fields = [''name'', ''connector_type'', ''model'']"

definition validate_endpoint_config :: "dict \<Rightarrow> exn + dict" where
  "validate_endpoint_config config =
     (let missing_fields = filter (\<lambda>field. \<not> dict_has config field) required_fields
      in if missing_fields \<noteq> [] then
           Inl (ValueError (''Missing required fields in endpoint config: ''
                            @ py_repr (JArr (map JStr missing_fields))))
         else
           (let c1 = setdefault config ''uri'' (JStr '''');
                c2 = setdefault c1 ''token'' (JStr '''');
                c3 = setdefault c2 ''max_calls_per_second'' (JInt 2);
                c4 = setdefault c3 ''max_concurrency'' (JInt 1);
                c5 = setdefault c4 ''params'' (JObj [])
            in Inr c5))"

section \<open>The backend\<close>

text \<open>
  The Moonshot backend is an external collaborator. The program imports two of its
  functions and calls each at most once in a run, so the backend is given by what each
  import and each call does: \<open>None\<close> for an import that succeeds, \<open>Inl e\<close> for a call that
  raises \<open>e\<close>. \<^verbatim>\<open>api_create_endpoint\<close> takes eight keyword arguments and returns the id
  of the new endpoint, a string. \<^verbatim>\<open>api_get_all_endpoint\<close> returns a list of dicts.
\<close>

record create_args =
  arg_name :: json
  arg_connector_type :: json
  arg_uri :: json
  arg_token :: json
  arg_max_calls_per_second :: json
  arg_max_concurrency :: json
  arg_model :: json
  arg_params :: json

record backend =
  import_api_create_endpoint :: "exn option"
  api_create_endpoint :: "create_args \<Rightarrow> exn + string"
  import_api_get_all_endpoint :: "exn option"
  api_get_all_endpoint :: "exn + dict list"

text \<open>Every function that may call the backend also returns the calls it made, in order.\<close>

datatype call = GetAllEndpoint | CreateEndpoint create_args

fun is_create :: "call \<Rightarrow> bool" where
  "is_create (CreateEndpoint a) = True"
| "is_create GetAllEndpoint = False"

section \<open>The registrar\<close>

text \<open>\<^verbatim>\<open>config[key]\<close>, which raises \<^verbatim>\<open>KeyError\<close> on a missing key.\<close>

definition subscript :: "dict \<Rightarrow> string \<Rightarrow> exn + json" where
  "subscript d k = (case map_of d k of None \<Rightarrow> Inl (OtherException (py_repr_str k)) | Some v \<Rightarrow> Inr v)"

definition bind_exn :: "exn + 'a \<Rightarrow> ('a \<Rightarrow> exn + 'b) \<Rightarrow> exn + 'b" where
  "bind_exn r f = (case r of Inl e \<Rightarrow> Inl e | Inr v \<Rightarrow> f v)"

text \<open>The keyword arguments of the creation call, evaluated in the order they are written.\<close>

definition create_args_of :: "dict \<Rightarrow> exn + create_args" where
  "create_args_of config =
     bind_exn (subscript config ''name'') (\<lambda>name.
     bind_exn (subscript config ''connector_type'') (\<lambda>connector_type.
     bind_exn (subscript config ''uri'') (\<lambda>uri.
     bind_exn (subscript config ''token'') (\<lambda>token.
     bind_exn (subscript config ''max_calls_per_second'') (\<lambda>max_calls_per_second.
     bind_exn (subscript config ''max_concurrency'') (\<lambda>max_concurrency.
     bind_exn (subscript config ''model'') (\<lambda>model.
     bind_exn (subscript config ''params'') (\<lambda>params.
       Inr \<lparr>arg_name = name, arg_connector_type = connector_type, arg_uri = uri,
            arg_token = token, arg_max_calls_per_second = max_calls_per_second,
            arg_max_concurrency = max_concurrency, arg_model = model,
            arg_params = params\<rparr>))))))))"

text \<open>
  Calling \<^verbatim>\<open>.get\<close> on a value that is not a dict raises \<^verbatim>\<open>AttributeError\<close>.
\<close>

definition no_attribute :: "json \<Rightarrow> string \<Rightarrow> exn" where
  "no_attribute v attr =
     AttributeError (quoted (py_type_name v) @ '' object has no attribute '' @ quoted attr)"

text \<open>
  The two handlers of \<^verbatim>\<open>register_endpoint\<close>: \<^verbatim>\<open>except ImportError\<close> first, then
  \<^verbatim>\<open>except Exception\<close>, whose message evaluates \<^verbatim>\<open>config.get('name', 'unknown')\<close> and
  so raises \<^verbatim>\<open>AttributeError\<close> itself when \<^verbatim>\<open>config\<close> is not a dict.
\<close>

definition register_handler :: "json \<Rightarrow> exn \<Rightarrow> exn" where
  "register_handler config e =
     (if is_import_error e then
        RuntimeError (''Failed to import Moonshot modules. Is Moonshot backend installed? Error: ''
                      @ str_exn e)
      else (case config of
              JObj d \<Rightarrow>
                RuntimeError (''Failed to register endpoint ''
                              @ quoted (py_str (dict_get d ''name'' (JStr ''unknown'')))
                              @ '': '' @ str_exn e)
            | _ \<Rightarrow> no_attribute config ''get''))"

text \<open>
  \<^verbatim>\<open>register_endpoint(config)\<close>. The file loader can hand it any JSON value. On a value
  that is not a dict, once the import has succeeded, \<^verbatim>\<open>validate_endpoint_config\<close> always
  raises (\<^verbatim>\<open>TypeError\<close> from \<^verbatim>\<open>in\<close>, \<^verbatim>\<open>ValueError\<close> for missing fields, or
  \<^verbatim>\<open>AttributeError\<close> from \<^verbatim>\<open>setdefault\<close>), none of them an \<^verbatim>\<open>ImportError\<close>, and the second
  handler then raises the \<^verbatim>\<open>AttributeError\<close> of \<^verbatim>\<open>config.get\<close>.
\<close>

definition register_endpoint :: "backend \<Rightarrow> json \<Rightarrow> call list \<times> (exn + string)" where
  "register_endpoint b config =
     (case import_api_create_endpoint b of
        Some e \<Rightarrow> ([], Inl (register_handler config e))
      | None \<Rightarrow>
          (case config of
             JObj d \<Rightarrow>
               (case validate_endpoint_config d of
                  Inl e \<Rightarrow> ([], Inl (register_handler config e))
                | Inr d' \<Rightarrow>
                    (case create_args_of d' of
                       Inl e \<Rightarrow> ([], Inl (register_handler (JObj d') e))
                     | Inr args \<Rightarrow>
                         (case api_create_endpoint b args of
                            Inl e \<Rightarrow> ([CreateEndpoint args], Inl (register_handler (JObj d') e))
                          | Inr endpoint_id \<Rightarrow> ([CreateEndpoint args], Inr endpoint_id))))
           | _ \<Rightarrow> ([], Inl (no_attribute config ''get''))))"

section \<open>The existence checker\<close>

definition check_handler :: "exn \<Rightarrow> exn" where
  "check_handler e =
     (if is_import_error e then RuntimeError (''Failed to import Moonshot modules: '' @ str_exn e)
      else RuntimeError (''Failed to check existing endpoints: '' @ str_exn e))"

definition endpoint_matches :: "json \<Rightarrow> dict \<Rightarrow> bool" where
  "endpoint_matches endpoint_name ep =
     (py_eq (dict_get ep ''name'' JNull) endpoint_name
      \<or> py_eq (dict_get ep ''id'' JNull) endpoint_name)"

definition check_endpoint_exists :: "backend \<Rightarrow> json \<Rightarrow> call list \<times> (exn + bool)" where
  "check_endpoint_exists b endpoint_name =
     (case import_api_get_all_endpoint b of
        Some e \<Rightarrow> ([], Inl (check_handler e))
      | None \<Rightarrow>
          (case api_get_all_endpoint b of
             Inl e \<Rightarrow> ([GetAllEndpoint], Inl (check_handler e))
           | Inr endpoints \<Rightarrow>
               ([GetAllEndpoint], Inr (list_ex (endpoint_matches endpoint_name) endpoints))))"

section \<open>The configuration directory\<close>

text \<open>
  The program looks at two places on disk, both relative to the script: the backend's
  directory \<^verbatim>\<open>revised-moonshot\<close> and the data directory
  \<^verbatim>\<open>revised-moonshot-data/connectors-endpoints\<close>. The record holds what the program
  observes there. For a file name \<open>f\<close>, \<open>path_str f\<close> is \<^verbatim>\<open>str(data_dir / f)\<close>,
  \<open>path_exists f\<close> is what \<^verbatim>\<open>(data_dir / f).exists()\<close> does and \<open>json_load f\<close> is what opening
  that path and \<^verbatim>\<open>json.load\<close> give. \<^verbatim>\<open>Path.exists\<close> answers \<^verbatim>\<open>False\<close> for a missing file,
  but it raises the \<^verbatim>\<open>OSError\<close> of the underlying \<^verbatim>\<open>stat\<close> call in other cases, such as a
  file name longer than the file system allows. The two directories are at fixed places
  of the installation, and the tests for them answer \<^verbatim>\<open>True\<close> or \<^verbatim>\<open>False\<close>.
  \<open>data_dir_entries\<close> are the names in the data directory, in the order the operating
  system lists them.
\<close>

record filesystem =
  moonshot_dir :: string
  moonshot_dir_exists :: bool
  data_dir_exists :: bool
  data_dir_entries :: "string list"
  path_str :: "string \<Rightarrow> string"
  path_exists :: "string \<Rightarrow> exn + bool"
  json_load :: "string \<Rightarrow> exn + json"

definition add_moonshot_to_path :: "filesystem \<Rightarrow> exn + bool" where
  "add_moonshot_to_path fs =
     (if moonshot_dir_exists fs then Inr True
      else Inl (RuntimeError (''Moonshot directory not found at '' @ moonshot_dir fs)))"

text \<open>
  The loop of \<^verbatim>\<open>get_endpoint_config_from_file\<close> over \<^verbatim>\<open>possible_files\<close>. The test
  \<^verbatim>\<open>config_path.exists()\<close> is outside the \<^verbatim>\<open>try\<close> block: what it raises leaves the function
  as it is, whereas what opening and parsing raise is wrapped in a \<^verbatim>\<open>RuntimeError\<close>.
\<close>

fun load_first :: "filesystem \<Rightarrow> string list \<Rightarrow> exn + json" where
  "load_first fs [] = Inr JNull"
| "load_first fs (filename # rest) =
     (case path_exists fs filename of
        Inl e \<Rightarrow> Inl e
      | Inr True \<Rightarrow>
          (case json_load fs filename of
             Inr v \<Rightarrow> Inr v
           | Inl e \<Rightarrow>
               Inl (RuntimeError (''Failed to load config from '' @ path_str fs filename
                                  @ '': '' @ str_exn e)))
      | Inr False \<Rightarrow> load_first fs rest)"

definition get_endpoint_config_from_file :: "filesystem \<Rightarrow> string \<Rightarrow> exn + json" where
  "get_endpoint_config_from_file fs endpoint_name =
     (let possible_files = [endpoint_name @ ''.json'', endpoint_name @ ''-connector.json'']
      in load_first fs possible_files)"

text \<open>
  \<^verbatim>\<open>data_dir.glob("*.json")\<close> yields the entries whose name ends in \<^verbatim>\<open>.json\<close>, names that
  start with a dot included; the match is case-sensitive, as on a POSIX system.
  \<^verbatim>\<open>Path.stem\<close> cuts the name at its last dot, unless that dot is the first or the last
  character.
\<close>

definition glob_json :: "string \<Rightarrow> bool" where
  "glob_json name = suffix ''.json'' name"

fun rfind :: "char \<Rightarrow> string \<Rightarrow> nat option" where
  "rfind c [] = None"
| "rfind c (x # xs) =
     (case rfind c xs of
        Some i \<Rightarrow> Some (Suc i)
      | None \<Rightarrow> (if x = c then Some 0 else None))"

definition stem :: "string \<Rightarrow> string" where
  "stem name =
     (case rfind CHR ''.'' name of
        Some i \<Rightarrow> (if 0 < i \<and> i < length name - 1 then take i name else name)
      | None \<Rightarrow> name)"

definition list_available_endpoint_configs :: "filesystem \<Rightarrow> string list" where
  "list_available_endpoint_configs fs =
     (if \<not> data_dir_exists fs then []
      else sort (map stem (filter glob_json (data_dir_entries fs))))"

section \<open>Registering\<close>

definition register_endpoint_by_name ::
  "backend \<Rightarrow> filesystem \<Rightarrow> string \<Rightarrow> call list \<times> (exn + string)" where
  "register_endpoint_by_name b fs endpoint_name =
     (case check_endpoint_exists b (JStr endpoint_name) of
        (cs, Inl e) \<Rightarrow> (cs, Inl e)
      | (cs, Inr True) \<Rightarrow>
          (cs, Inr (''Endpoint '' @ quoted endpoint_name @ '' already registered''))
      | (cs, Inr False) \<Rightarrow>
          (case get_endpoint_config_from_file fs endpoint_name of
             Inl e \<Rightarrow> (cs, Inl e)
           | Inr config \<Rightarrow>
               (if \<not> py_truthy config then
                  (cs, Inl (RuntimeError
                    (''No configuration found for endpoint '' @ quoted endpoint_name
                     @ ''. Available endpoint configs: ''
                     @ py_repr (JArr (map JStr (list_available_endpoint_configs fs))))))
                else
                  (case register_endpoint b config of
                     (cs', Inl e) \<Rightarrow> (cs @ cs', Inl e)
                   | (cs', Inr endpoint_id) \<Rightarrow>
                       (cs @ cs', Inr (''Successfully registered endpoint ''
                                       @ quoted endpoint_name @ '' with ID: '' @ endpoint_id))))))"

definition register_custom_endpoint :: "backend \<Rightarrow> json \<Rightarrow> call list \<times> (exn + string)" where
  "register_custom_endpoint b config =
     (case config of
        JObj d \<Rightarrow>
          (let endpoint_name = dict_get d ''name'' (JStr ''unknown'')
           in case check_endpoint_exists b endpoint_name of
                (cs, Inl e) \<Rightarrow> (cs, Inl e)
              | (cs, Inr True) \<Rightarrow>
                  (cs, Inr (''Endpoint '' @ quoted (py_str endpoint_name)
                            @ '' already registered''))
              | (cs, Inr False) \<Rightarrow>
                  (case register_endpoint b config of
                     (cs', Inl e) \<Rightarrow> (cs @ cs', Inl e)
                   | (cs', Inr endpoint_id) \<Rightarrow>
                       (cs @ cs', Inr (''Successfully registered custom endpoint ''
                                       @ quoted (py_str endpoint_name) @ '' with ID: ''
                                       @ endpoint_id))))
      | _ \<Rightarrow> ([], Inl (no_attribute config ''get'')))"

definition list_registered_endpoints :: "backend \<Rightarrow> call list \<times> (exn + dict list)" where
  "list_registered_endpoints b =
     (let handler = (\<lambda>e. RuntimeError (''Failed to list registered endpoints: '' @ str_exn e))
      in case import_api_get_all_endpoint b of
           Some e \<Rightarrow> ([], Inl (handler e))
         | None \<Rightarrow>
             (case api_get_all_endpoint b of
                Inl e \<Rightarrow> ([GetAllEndpoint], Inl (handler e))
              | Inr endpoints \<Rightarrow>
                  ([GetAllEndpoint],
                   Inr (map (\<lambda>ep. [(''name'', dict_get ep ''name'' JNull),
                                    (''model'', dict_get ep ''model'' JNull),
                                    (''connector_type'', dict_get ep ''connector_type'' JNull)])
                          endpoints))))"

section \<open>The command line\<close>

text \<open>
  A run of \<^verbatim>\<open>main\<close> is given by \<^verbatim>\<open>sys.argv\<close> (the script's name first), the backend, the
  file system and \<^verbatim>\<open>json.loads\<close>, a function of the standard library. Its outcome is
  what it printed on standard output and on standard error, one entry for each call of
  \<^verbatim>\<open>print\<close> (an entry spans several lines when the printed text holds line breaks), the
  exit code of the process, and the backend calls it made.
\<close>

record outcome =
  stdout :: "string list"
  stderr :: "string list"
  exit_code :: int
  calls :: "call list"

definition usage_lines :: "string list" where
  "usage_lines =
     [''Usage:'',
      ''  python endpoint-manager.py register <endpoint_name>'',
      ''  python endpoint-manager.py register-json <json_config>'',
      ''  python endpoint-manager.py list-available'',
      ''  python endpoint-manager.py list-registered'',
      ''  python endpoint-manager.py check <endpoint_name>'']"

text \<open>
  The line printed for one entry of \<^verbatim>\<open>list-registered\<close>; the three keys are those of the
  dict literal that \<^verbatim>\<open>list_registered_endpoints\<close> builds.
\<close>

definition registered_line :: "dict \<Rightarrow> string" where
  "registered_line ep =
     ''  - '' @ py_str (dict_get ep ''name'' JNull)
     @ '' ('' @ py_str (dict_get ep ''connector_type'' JNull)
     @ '', '' @ py_str (dict_get ep ''model'' JNull) @ '')''"

text \<open>
  The body of the \<^verbatim>\<open>try\<close> block: the backend calls made, the lines printed, and the
  exception that left the block, if any.
\<close>

definition run_command ::
  "(string \<Rightarrow> exn + json) \<Rightarrow> backend \<Rightarrow> filesystem \<Rightarrow> string list
     \<Rightarrow> call list \<times> string list \<times> exn option" where
  "run_command json_loads b fs argv =
     (case add_moonshot_to_path fs of
        Inl e \<Rightarrow> ([], [], Some e)
      | Inr _ \<Rightarrow>
          (let command = argv ! 1 in
           if command = ''register'' then
             (if length argv \<noteq> 3 then
                ([], [], Some (ValueError ''Usage: register <endpoint_name>''))
              else
                (case register_endpoint_by_name b fs (argv ! 2) of
                   (cs, Inl e) \<Rightarrow> (cs, [], Some e)
                 | (cs, Inr result) \<Rightarrow> (cs, [result], None)))
           else if command = ''register-json'' then
             (if length argv \<noteq> 3 then
                ([], [], Some (ValueError ''Usage: register-json <json_config>''))
              else
                (case json_loads (argv ! 2) of
                   Inl e \<Rightarrow> ([], [], Some e)
                 | Inr config \<Rightarrow>
                     (case register_custom_endpoint b config of
                        (cs, Inl e) \<Rightarrow> (cs, [], Some e)
                      | (cs, Inr result) \<Rightarrow> (cs, [result], None))))
           else if command = ''list-available'' then
             ([], ''Available endpoint configurations:''
                  # map (\<lambda>config. ''  - '' @ config) (list_available_endpoint_configs fs),
              None)
           else if command = ''list-registered'' then
             (case list_registered_endpoints b of
                (cs, Inl e) \<Rightarrow> (cs, [], Some e)
              | (cs, Inr endpoints) \<Rightarrow>
                  (cs, ''Registered endpoints:'' # map registered_line endpoints, None))
           else if command = ''check'' then
             (if length argv \<noteq> 3 then
                ([], [], Some (ValueError ''Usage: check <endpoint_name>''))
              else
                (case check_endpoint_exists b (JStr (argv ! 2)) of
                   (cs, Inl e) \<Rightarrow> (cs, [], Some e)
                 | (cs, Inr exists) \<Rightarrow>
                     (cs, [''Endpoint '' @ quoted (argv ! 2) @ '' ''
                           @ (if exists then ''exists'' else ''does not exist'')
                           @ '' in registry''], None)))
           else ([], [], Some (ValueError (''Unknown command: '' @ command)))))"

definition main ::
  "(string \<Rightarrow> exn + json) \<Rightarrow> backend \<Rightarrow> filesystem \<Rightarrow> string list \<Rightarrow> outcome" where
  "main json_loads b fs argv =
     (if length argv < 2 then
        \<lparr>stdout = usage_lines, stderr = [], exit_code = 1, calls = []\<rparr>
      else
        (case run_command json_loads b fs argv of
           (cs, printed, None) \<Rightarrow>
             \<lparr>stdout = printed, stderr = [], exit_code = 0, calls = cs\<rparr>
         | (cs, printed, Some e) \<Rightarrow>
             \<lparr>stdout = printed, stderr = [''ERROR: '' @ str_exn e], exit_code = 1,
              calls = cs\<rparr>))"

section \<open>An example installation\<close>

text \<open>
  A backend with one registered endpoint, a data directory with four entries, and the
  inline JSON texts used below. The theorems are run on it. The file names of the
  examples are plain names, without a slash. As on a Linux file system, a name of more
  than 255 bytes makes the existence test and the opening of the file raise
  \<^verbatim>\<open>OSError\<close>; in UTF-8 a character below 128 is one byte and a character from 128 to 255
  is two.
\<close>

definition example_backend :: backend where
  "example_backend =
     \<lparr>import_api_create_endpoint = None,
      api_create_endpoint = (\<lambda>args. Inr (py_str (arg_name args))),
      import_api_get_all_endpoint = None,
      api_get_all_endpoint =
        Inr [[(''id'', JStr ''my-gpt4''), (''name'', JStr ''My GPT4''),
              (''connector_type'', JStr ''openai-connector''), (''model'', JStr ''gpt-4o'')]]\<rparr>"

definition example_config :: dict where
  "example_config =
     [(''name'', JStr ''claude''), (''connector_type'', JStr ''anthropic-connector''),
      (''model'', JStr ''claude-3''), (''max_calls_per_second'', JInt 0), (''token'', JStr [])]"

definition gpt4_config :: dict where
  "gpt4_config =
     [(''name'', JStr ''My GPT4''), (''connector_type'', JStr ''openai-connector''),
      (''model'', JStr ''gpt-4o'')]"

definition utf8_length :: "string \<Rightarrow> nat" where
  "utf8_length s = sum_list (map (\<lambda>c. if (of_char c :: nat) < 128 then 1 else 2) s)"

definition data_path :: "string \<Rightarrow> string" where
  "data_path f = ''/opt/revised-moonshot-data/connectors-endpoints/'' @ f"

definition file_name_too_long :: "string \<Rightarrow> exn" where
  "file_name_too_long f =
     OSError (''[Errno 36] File name too long: '' @ py_repr_str (data_path f))"

definition no_such_file :: "string \<Rightarrow> exn" where
  "no_such_file f =
     OSError (''[Errno 2] No such file or directory: '' @ py_repr_str (data_path f))"

definition example_fs :: filesystem where
  "example_fs =
     \<lparr>moonshot_dir = ''/opt/revised-moonshot'',
      moonshot_dir_exists = True,
      data_dir_exists = True,
      data_dir_entries = [''my-gpt4.json'', ''claude-connector.json'', ''broken.json'', ''notes.txt''],
      path_str = data_path,
      path_exists =
        (\<lambda>f. if 255 < utf8_length f then Inl (file_name_too_long f)
             else Inr (f \<in> set [''my-gpt4.json'', ''claude-connector.json'', ''broken.json'',
                                 ''notes.txt''])),
      json_load =
        (\<lambda>f. if 255 < utf8_length f then Inl (file_name_too_long f)
             else if f = ''claude-connector.json'' then Inr (JObj example_config)
             else if f = ''my-gpt4.json'' then Inr (JObj gpt4_config)
             else if f = ''broken.json'' \<or> f = ''notes.txt'' then
               Inl (ValueError ''Expecting value: line 1 column 1 (char 0)'')
             else Inl (no_such_file f))\<rparr>"

text \<open>
  The parser of the examples answers as \<^verbatim>\<open>json.loads\<close> does on the text \<^verbatim>\<open>{"name":"x"}\<close>,
  on the text \<^verbatim>\<open>{bad\<close> and on a text that does not begin a JSON value; the examples use no
  other text.
\<close>

definition name_only_text :: string where
  "name_only_text = ''{'' @ [dq] @ ''name'' @ [dq] @ '':'' @ [dq] @ ''x'' @ [dq] @ ''}''"

definition example_json_loads :: "string \<Rightarrow> exn + json" where
  "example_json_loads s =
     (if s = name_only_text then Inr (JObj [(''name'', JStr ''x'')])
      else if s = ''{bad'' then
        Inl (ValueError
          ''Expecting property name enclosed in double quotes: line 1 column 2 (char 1)'')
      else Inl (ValueError ''Expecting value: line 1 column 1 (char 0)''))"

text \<open>
  Three variants of the backend: one whose module cannot be imported, one whose creation
  call raises, and one whose module lacks the creation function only.
\<close>

definition unimportable_backend :: backend where
  "unimportable_backend =
     example_backend
       \<lparr>import_api_create_endpoint := Some (ImportError (''No module named '' @ quoted ''moonshot'')),
        import_api_get_all_endpoint := Some (ImportError (''No module named '' @ quoted ''moonshot''))\<rparr>"

definition refusing_backend :: backend where
  "refusing_backend =
     example_backend
       \<lparr>api_create_endpoint := (\<lambda>args. Inl (OtherException ''connector type not found''))\<rparr>"

definition listing_only_backend :: backend where
  "listing_only_backend =
     example_backend
       \<lparr>import_api_create_endpoint :=
          Some (ImportError (''cannot import name '' @ quoted ''api_create_endpoint''
            @ '' from '' @ quoted ''moonshot.src.api.api_connector_endpoint''
            @ '' (/opt/revised-moonshot/moonshot/src/api/api_connector_endpoint.py)''))\<rparr>"

section \<open>Properties of validation\<close>

lemma dict_has_iff: "dict_has d k \<longleftrightarrow> k \<in> set (map fst d)"
  by (simp add: dict_has_def map_of_eq_None_iff)

lemma map_of_setdefault:
  "map_of (setdefault d k v) k' = (if k' = k \<and> map_of d k = None then Some v else map_of d k')"
  by (auto simp: setdefault_def dict_has_def map_add_def split: option.splits)

lemma setdefault_absent: "\<not> dict_has d k \<Longrightarrow> setdefault d k v = d @ [(k, v)]"
  by (simp add: setdefault_def)

lemma setdefault_prefix: "prefix d (setdefault d k v)"
  by (simp add: setdefault_def)

lemma keys_setdefault: "set (map fst (setdefault d k v)) = insert k (set (map fst d))"
  by (auto simp: setdefault_def dict_has_iff)

lemma validate_Inr_iff:
  "validate_endpoint_config config = Inr c' \<longleftrightarrow>
     (\<forall>k \<in> set required_fields. dict_has config k) \<and>
     c' = setdefault (setdefault (setdefault (setdefault (setdefault config
            ''uri'' (JStr [])) ''token'' (JStr [])) ''max_calls_per_second'' (JInt 2))
            ''max_concurrency'' (JInt 1)) ''params'' (JObj [])"
  by (auto simp: validate_endpoint_config_def Let_def filter_empty_conv)

lemma validate_Inl_iff:
  "validate_endpoint_config config = Inl e \<longleftrightarrow>
     (\<exists>k \<in> set required_fields. \<not> dict_has config k) \<and>
     e = ValueError (''Missing required fields in endpoint config: ''
           @ py_repr (JArr (map JStr (filter (\<lambda>field. \<not> dict_has config field) required_fields))))"
  by (auto simp: validate_endpoint_config_def Let_def filter_empty_conv)

text \<open>The \<^verbatim>\<open>repr\<close> of a list of required field names: no character needs an escape.\<close>

lemma py_repr_field_list:
  assumes "set fs \<subseteq> set required_fields"
  shows "py_repr (JArr (map JStr fs)) = ''['' @ join '', '' (map quoted fs) @ '']''"
proof -
  have one: "py_repr_str f = quoted f" if "f \<in> set required_fields" for f
    using that
    by (auto simp: required_fields_def py_repr_str_def escape_char_def printable_def
        sq_def dq_def backslash_def quoted_def Let_def)
  have "set fs \<subseteq> set required_fields \<Longrightarrow> py_repr_list (map JStr fs) = map quoted fs"
    by (induction fs) (auto simp: one)
  with assms show ?thesis by simp
qed

lemma sublist_join: "x \<in> set xs \<Longrightarrow> sublist x (join sep xs)"
proof (induction sep xs rule: join.induct)
  case (3 sep a b ys)
  show ?case
  proof (cases "x = a")
    case True
    then show ?thesis by simp
  next
    case False
    with 3 have "sublist x (join sep (b # ys))" by simp
    then obtain ps ss where "join sep (b # ys) = ps @ x @ ss" by (auto simp: sublist_def)
    then have "join sep (a # b # ys) = (a @ sep @ ps) @ x @ ss" by simp
    then show ?thesis unfolding sublist_def by blast
  qed
qed simp_all

lemma map_of_validated:
  assumes "validate_endpoint_config config = Inr config'"
  shows "map_of config' k =
     (case map_of config k of Some v \<Rightarrow> Some v
      | None \<Rightarrow> map_of [(''uri'', JStr []), (''token'', JStr []),
                    (''max_calls_per_second'', JInt 2), (''max_concurrency'', JInt 1),
                    (''params'', JObj [])] k)"
  using assms by (auto simp: validate_Inr_iff map_of_setdefault split: option.splits)

lemma keys_validated:
  assumes "validate_endpoint_config config = Inr config'"
  shows "set (map fst config') = set (map fst config) \<union>
     {''uri'', ''token'', ''max_calls_per_second'', ''max_concurrency'', ''params''}"
  using assms unfolding validate_Inr_iff by (auto simp only: keys_setdefault)

lemma prefix_validated:
  assumes "validate_endpoint_config config = Inr config'"
  shows "prefix config config'"
proof -
  have "prefix config (setdefault (setdefault (setdefault (setdefault (setdefault config
            ''uri'' (JStr [])) ''token'' (JStr [])) ''max_calls_per_second'' (JInt 2))
            ''max_concurrency'' (JInt 1)) ''params'' (JObj []))"
    by (meson setdefault_prefix prefix_order.trans)
  with assms show ?thesis by (simp add: validate_Inr_iff)
qed

lemma validate_required_only:
  assumes "set (map fst config) = set required_fields"
  shows "validate_endpoint_config config =
           Inr (config @ [(''uri'', JStr []), (''token'', JStr []),
                          (''max_calls_per_second'', JInt 2), (''max_concurrency'', JInt 1),
                          (''params'', JObj [])])"
  using assms
  by (simp add: validate_Inr_iff dict_has_iff setdefault_absent keys_setdefault required_fields_def)

text \<open>
  C2. A configuration whose keys are exactly \<^verbatim>\<open>name\<close>, \<^verbatim>\<open>connector_type\<close> and \<^verbatim>\<open>model\<close>
  passes validation. Afterwards it holds, besides these three keys with their values
  unchanged, exactly the five optional keys with \<^verbatim>\<open>uri = ""\<close>, \<^verbatim>\<open>token = ""\<close>,
  \<^verbatim>\<open>max_calls_per_second = 2\<close>, \<^verbatim>\<open>max_concurrency = 1\<close> and \<^verbatim>\<open>params = {}\<close>.
\<close>

theorem validate_three_required_fields:
  assumes "set (map fst config) = set required_fields"
  shows "\<exists>config'. validate_endpoint_config config = Inr config'
     \<and> config' = config @ [(''uri'', JStr []), (''token'', JStr []),
                          (''max_calls_per_second'', JInt 2), (''max_concurrency'', JInt 1),
                          (''params'', JObj [])]
     \<and> set (map fst config') = set required_fields \<union>
          {''uri'', ''token'', ''max_calls_per_second'', ''max_concurrency'', ''params''}
     \<and> map_of config' ''uri'' = Some (JStr [])
     \<and> map_of config' ''token'' = Some (JStr [])
     \<and> map_of config' ''max_calls_per_second'' = Some (JInt 2)
     \<and> map_of config' ''max_concurrency'' = Some (JInt 1)
     \<and> map_of config' ''params'' = Some (JObj [])
     \<and> (\<forall>k \<in> set required_fields. map_of config' k = map_of config k)"
proof -
  let ?d = "[(''uri'', JStr []), (''token'', JStr []),
             (''max_calls_per_second'', JInt 2), (''max_concurrency'', JInt 1),
             (''params'', JObj [])]"
  have v: "validate_endpoint_config config = Inr (config @ ?d)"
    using assms by (rule validate_required_only)
  have dom: "dom (map_of config) = {''name'', ''connector_type'', ''model''}"
    using assms by (simp add: dom_map_of_conv_image_fst required_fields_def)
  have absent: "map_of config k = None" if "k \<notin> {''name'', ''connector_type'', ''model''}" for k
    using that dom by blast
  have present: "\<exists>v. map_of config k = Some v"
    if "k \<in> {''name'', ''connector_type'', ''model''}" for k
    using that dom by blast
  have m: "map_of (config @ ?d) k =
      (case map_of config k of Some v \<Rightarrow> Some v | None \<Rightarrow> map_of ?d k)" for k
    by (simp add: map_add_def split: option.splits)
  have req: "\<forall>k \<in> set required_fields. map_of (config @ ?d) k = map_of config k"
  proof
    fix k assume "k \<in> set required_fields"
    then obtain v where "map_of config k = Some v"
      using present [of k] by (auto simp: required_fields_def)
    then show "map_of (config @ ?d) k = map_of config k"
      by (simp only: m option.case)
  qed
  have a1: "map_of config ''uri'' = None" by (rule absent) simp
  have a2: "map_of config ''token'' = None" by (rule absent) simp
  have a3: "map_of config ''max_calls_per_second'' = None" by (rule absent) simp
  have a4: "map_of config ''max_concurrency'' = None" by (rule absent) simp
  have a5: "map_of config ''params'' = None" by (rule absent) simp
  have o1: "map_of (config @ ?d) ''uri'' = Some (JStr [])"
    by (simp only: m a1 option.case) simp
  have o2: "map_of (config @ ?d) ''token'' = Some (JStr [])"
    by (simp only: m a2 option.case) simp
  have o3: "map_of (config @ ?d) ''max_calls_per_second'' = Some (JInt 2)"
    by (simp only: m a3 option.case) simp
  have o4: "map_of (config @ ?d) ''max_concurrency'' = Some (JInt 1)"
    by (simp only: m a4 option.case) simp
  have o5: "map_of (config @ ?d) ''params'' = Some (JObj [])"
    by (simp only: m a5 option.case) simp
  have keys: "set (map fst (config @ ?d)) = set required_fields \<union>
          {''uri'', ''token'', ''max_calls_per_second'', ''max_concurrency'', ''params''}"
    unfolding map_append set_append assms by simp
  show ?thesis
    by (rule exI [of _ "config @ ?d"]) (intro conjI v refl keys o1 o2 o3 o4 o5 req)
qed

theorem validate_three_required_fields_witness:
  "set (map fst [(''name'', JStr ''my-gpt4''), (''connector_type'', JStr ''openai-connector''),
                 (''model'', JStr ''gpt-4o'')]) = set required_fields
   \<and> validate_endpoint_config
        [(''name'', JStr ''my-gpt4''), (''connector_type'', JStr ''openai-connector''),
         (''model'', JStr ''gpt-4o'')]
      = Inr [(''name'', JStr ''my-gpt4''), (''connector_type'', JStr ''openai-connector''),
             (''model'', JStr ''gpt-4o''), (''uri'', JStr []), (''token'', JStr []),
             (''max_calls_per_second'', JInt 2), (''max_concurrency'', JInt 1),
             (''params'', JObj [])]"
proof -
  have keys: "set (map fst [(''name'', JStr ''my-gpt4''),
      (''connector_type'', JStr ''openai-connector''), (''model'', JStr ''gpt-4o'')])
      = set required_fields"
    by (simp add: required_fields_def)
  from validate_three_required_fields [OF keys] keys show ?thesis
    by auto
qed

lemma missing_message_lists:
  assumes "f \<in> set fs"
  shows "sublist (quoted f)
     (''Missing required fields in endpoint config: ['' @ join '', '' (map quoted fs) @ '']'')"
proof -
  from assms have "sublist (quoted f) (join '', '' (map quoted fs))"
    by (intro sublist_join) simp
  then obtain ps ss where "join '', '' (map quoted fs) = ps @ quoted f @ ss"
    by (auto simp: sublist_def)
  then have "''Missing required fields in endpoint config: ['' @ join '', '' (map quoted fs) @ '']''
      = (''Missing required fields in endpoint config: ['' @ ps) @ quoted f @ (ss @ '']'')"
    by simp
  then show ?thesis
    unfolding sublist_def by blast
qed

text \<open>
  C3. Validation fails exactly when one of \<^verbatim>\<open>name\<close>, \<^verbatim>\<open>connector_type\<close>, \<^verbatim>\<open>model\<close> is
  absent. The failure is a \<^verbatim>\<open>ValueError\<close> whose message is the fixed text followed by the
  list of the absent required keys, in the order of \<^verbatim>\<open>required_fields\<close>, each in single
  quotes; a configuration without \<^verbatim>\<open>model\<close> has \<^verbatim>\<open>'model'\<close> in that message. When all
  three are present validation succeeds, and each of the five optional keys then holds
  the supplied value, or its default where none was supplied.
\<close>

theorem validate_fails_iff_field_missing:
  "(isl (validate_endpoint_config config) \<longleftrightarrow> (\<exists>k \<in> set required_fields. \<not> dict_has config k))
   \<and> ((\<exists>k \<in> set required_fields. \<not> dict_has config k) \<longrightarrow>
         validate_endpoint_config config =
           Inl (ValueError (''Missing required fields in endpoint config: [''
                 @ join '', '' (map quoted (filter (\<lambda>k. \<not> dict_has config k) required_fields))
                 @ '']'')))
   \<and> (\<not> dict_has config ''model'' \<longrightarrow>
         (\<exists>m. validate_endpoint_config config = Inl (ValueError m) \<and> sublist (quoted ''model'') m))
   \<and> ((\<forall>k \<in> set required_fields. dict_has config k) \<longrightarrow>
         (\<exists>config'. validate_endpoint_config config = Inr config'
            \<and> map_of config' ''uri'' = Some (dict_get config ''uri'' (JStr []))
            \<and> map_of config' ''token'' = Some (dict_get config ''token'' (JStr []))
            \<and> map_of config' ''max_calls_per_second''
                = Some (dict_get config ''max_calls_per_second'' (JInt 2))
            \<and> map_of config' ''max_concurrency''
                = Some (dict_get config ''max_concurrency'' (JInt 1))
            \<and> map_of config' ''params'' = Some (dict_get config ''params'' (JObj []))))"
proof -
  let ?missing = "filter (\<lambda>k. \<not> dict_has config k) required_fields"
  let ?msg = "''Missing required fields in endpoint config: [''
                 @ join '', '' (map quoted ?missing) @ '']''"
  have fail: "validate_endpoint_config config = Inl (ValueError ?msg)"
    if "\<exists>k \<in> set required_fields. \<not> dict_has config k"
  proof -
    have "py_repr (JArr (map JStr ?missing)) = ''['' @ join '', '' (map quoted ?missing) @ '']''"
      by (rule py_repr_field_list) simp
    with that show ?thesis
      by (simp add: validate_Inl_iff)
  qed
  have ok: "\<exists>config'. validate_endpoint_config config = Inr config'"
    if "\<forall>k \<in> set required_fields. dict_has config k"
    using that by (simp add: validate_Inr_iff)
  have iff: "isl (validate_endpoint_config config)
      \<longleftrightarrow> (\<exists>k \<in> set required_fields. \<not> dict_has config k)"
  proof (cases "\<exists>k \<in> set required_fields. \<not> dict_has config k")
    case True
    with fail show ?thesis by simp
  next
    case False
    with ok obtain c' where "validate_endpoint_config config = Inr c'" by blast
    with False show ?thesis by simp
  qed
  have model: "\<exists>m. validate_endpoint_config config = Inl (ValueError m)
      \<and> sublist (quoted ''model'') m" if "\<not> dict_has config ''model''"
  proof -
    from that have "''model'' \<in> set ?missing"
      by (simp add: required_fields_def)
    then have "sublist (quoted ''model'') ?msg"
      by (rule missing_message_lists)
    moreover from that have "validate_endpoint_config config = Inl (ValueError ?msg)"
      by (intro fail) (auto simp: required_fields_def)
    ultimately show ?thesis by blast
  qed
  have defaults: "\<exists>config'. validate_endpoint_config config = Inr config'
            \<and> map_of config' ''uri'' = Some (dict_get config ''uri'' (JStr []))
            \<and> map_of config' ''token'' = Some (dict_get config ''token'' (JStr []))
            \<and> map_of config' ''max_calls_per_second''
                = Some (dict_get config ''max_calls_per_second'' (JInt 2))
            \<and> map_of config' ''max_concurrency''
                = Some (dict_get config ''max_concurrency'' (JInt 1))
            \<and> map_of config' ''params'' = Some (dict_get config ''params'' (JObj []))"
    if "\<forall>k \<in> set required_fields. dict_has config k"
  proof -
    from ok [OF that] obtain c' where c': "validate_endpoint_config config = Inr c'" ..
    have "map_of c' ''uri'' = Some (dict_get config ''uri'' (JStr []))"
      "map_of c' ''token'' = Some (dict_get config ''token'' (JStr []))"
      "map_of c' ''max_calls_per_second'' = Some (dict_get config ''max_calls_per_second'' (JInt 2))"
      "map_of c' ''max_concurrency'' = Some (dict_get config ''max_concurrency'' (JInt 1))"
      "map_of c' ''params'' = Some (dict_get config ''params'' (JObj []))"
      unfolding map_of_validated [OF c'] dict_get_def
      by (simp_all split: option.splits)
    with c' show ?thesis by blast
  qed
  from iff fail model defaults show ?thesis by blast
qed

theorem validate_fails_iff_field_missing_witness:
  "\<not> dict_has [(''name'', JStr ''x'')] ''model''
   \<and> validate_endpoint_config [(''name'', JStr ''x'')]
       = Inl (ValueError (''Missing required fields in endpoint config: [''
                          @ quoted ''connector_type'' @ '', '' @ quoted ''model'' @ '']''))
   \<and> dict_has example_config ''name'' \<and> dict_has example_config ''connector_type''
   \<and> dict_has example_config ''model''
   \<and> \<not> isl (validate_endpoint_config example_config)"
  using validate_fails_iff_field_missing [of "[(''name'', JStr ''x'')]"]
    validate_fails_iff_field_missing [of example_config]
  by (simp add: dict_has_def required_fields_def example_config_def)

text \<open>
  C10. Validation never overwrites a supplied value. When it succeeds, every key of the
  configuration keeps its value, whatever that value is; the old bindings stay in front,
  in their order; and the keys afterwards are the old ones together with the five
  optional ones, so that a key that is new is one of the optional keys.
\<close>

theorem validate_keeps_supplied_values:
  assumes "validate_endpoint_config config = Inr config'"
  shows "(\<forall>k v. map_of config k = Some v \<longrightarrow> map_of config' k = Some v)
     \<and> prefix config config'
     \<and> set (map fst config') = set (map fst config) \<union>
          {''uri'', ''token'', ''max_calls_per_second'', ''max_concurrency'', ''params''}
     \<and> (\<forall>k. dict_has config' k \<and> \<not> dict_has config k \<longrightarrow>
            k \<in> {''uri'', ''token'', ''max_calls_per_second'', ''max_concurrency'', ''params''})"
proof -
  have kept: "\<forall>k v. map_of config k = Some v \<longrightarrow> map_of config' k = Some v"
    by (simp add: map_of_validated [OF assms])
  have keys: "set (map fst config') = set (map fst config) \<union>
          {''uri'', ''token'', ''max_calls_per_second'', ''max_concurrency'', ''params''}"
    by (rule keys_validated [OF assms])
  have new: "\<forall>k. dict_has config' k \<and> \<not> dict_has config k \<longrightarrow>
            k \<in> {''uri'', ''token'', ''max_calls_per_second'', ''max_concurrency'', ''params''}"
    unfolding dict_has_iff keys by blast
  from kept prefix_validated [OF assms] keys new show ?thesis
    by (intro conjI)
qed

theorem validate_keeps_supplied_values_witness:
  "validate_endpoint_config example_config
     = Inr (example_config @ [(''uri'', JStr []), (''max_concurrency'', JInt 1),
                              (''params'', JObj [])])
   \<and> map_of (example_config @ [(''uri'', JStr []), (''max_concurrency'', JInt 1),
                               (''params'', JObj [])]) ''max_calls_per_second'' = Some (JInt 0)
   \<and> map_of (example_config @ [(''uri'', JStr []), (''max_concurrency'', JInt 1),
                               (''params'', JObj [])]) ''token'' = Some (JStr [])"
proof -
  have v: "validate_endpoint_config example_config
     = Inr (example_config @ [(''uri'', JStr []), (''max_concurrency'', JInt 1),
                              (''params'', JObj [])])"
    by (simp add: validate_endpoint_config_def required_fields_def example_config_def
        dict_has_def setdefault_def)
  have "map_of example_config ''max_calls_per_second'' = Some (JInt 0)"
    "map_of example_config ''token'' = Some (JStr [])"
    by (simp_all add: example_config_def)
  with validate_keeps_supplied_values [OF v] v show ?thesis
    by blast
qed

section \<open>Properties of the configuration directory\<close>

text \<open>
  C6, as the code has it. The loader tests \<^verbatim>\<open><name>.json\<close> first and
  \<^verbatim>\<open><name>-connector.json\<close> second. It returns what the first of them that exists parses
  to; when that file cannot be read or parsed it raises a \<^verbatim>\<open>RuntimeError\<close> that names the
  path, without trying the other file; when both tests answer that the file does not
  exist it returns \<^verbatim>\<open>None\<close>. When an existence test itself raises, that exception leaves
  the loader as it is, unwrapped, and nothing is returned. The loader returns \<^verbatim>\<open>None\<close> in
  these cases only: neither file exists, or the file it reads holds \<^verbatim>\<open>null\<close>.
\<close>

theorem get_endpoint_config_from_file_first_match:
  "(path_exists fs (n @ ''.json'') = Inr True \<longrightarrow>
      get_endpoint_config_from_file fs n =
        (case json_load fs (n @ ''.json'') of
           Inr v \<Rightarrow> Inr v
         | Inl e \<Rightarrow> Inl (RuntimeError (''Failed to load config from ''
                          @ path_str fs (n @ ''.json'') @ '': '' @ str_exn e))))
   \<and> (path_exists fs (n @ ''.json'') = Inr False
        \<and> path_exists fs (n @ ''-connector.json'') = Inr True \<longrightarrow>
      get_endpoint_config_from_file fs n =
        (case json_load fs (n @ ''-connector.json'') of
           Inr v \<Rightarrow> Inr v
         | Inl e \<Rightarrow> Inl (RuntimeError (''Failed to load config from ''
                          @ path_str fs (n @ ''-connector.json'') @ '': '' @ str_exn e))))
   \<and> (path_exists fs (n @ ''.json'') = Inr False
        \<and> path_exists fs (n @ ''-connector.json'') = Inr False \<longrightarrow>
      get_endpoint_config_from_file fs n = Inr JNull)
   \<and> (path_exists fs (n @ ''.json'') = Inl e \<longrightarrow>
      get_endpoint_config_from_file fs n = Inl e)
   \<and> (path_exists fs (n @ ''.json'') = Inr False
        \<and> path_exists fs (n @ ''-connector.json'') = Inl e \<longrightarrow>
      get_endpoint_config_from_file fs n = Inl e)
   \<and> (get_endpoint_config_from_file fs n = Inr JNull \<longleftrightarrow>
        (path_exists fs (n @ ''.json'') = Inr False
           \<and> path_exists fs (n @ ''-connector.json'') = Inr False)
        \<or> (path_exists fs (n @ ''.json'') = Inr True
             \<and> json_load fs (n @ ''.json'') = Inr JNull)
        \<or> (path_exists fs (n @ ''.json'') = Inr False
             \<and> path_exists fs (n @ ''-connector.json'') = Inr True
             \<and> json_load fs (n @ ''-connector.json'') = Inr JNull))"
proof -
  have none: "get_endpoint_config_from_file fs n = Inr JNull \<longleftrightarrow>
        (path_exists fs (n @ ''.json'') = Inr False
           \<and> path_exists fs (n @ ''-connector.json'') = Inr False)
        \<or> (path_exists fs (n @ ''.json'') = Inr True
             \<and> json_load fs (n @ ''.json'') = Inr JNull)
        \<or> (path_exists fs (n @ ''.json'') = Inr False
             \<and> path_exists fs (n @ ''-connector.json'') = Inr True
             \<and> json_load fs (n @ ''-connector.json'') = Inr JNull)"
    by (auto simp: get_endpoint_config_from_file_def split: sum.splits bool.splits)
  then show ?thesis
    by (simp add: get_endpoint_config_from_file_def)
qed

theorem get_endpoint_config_from_file_first_match_witness:
  "path_exists example_fs (''claude'' @ ''.json'') = Inr False
   \<and> path_exists example_fs (''claude'' @ ''-connector.json'') = Inr True
   \<and> get_endpoint_config_from_file example_fs ''claude'' = Inr (JObj example_config)
   \<and> path_exists example_fs (''broken'' @ ''.json'') = Inr True
   \<and> get_endpoint_config_from_file example_fs ''broken''
       = Inl (RuntimeError (''Failed to load config from ''
           @ ''/opt/revised-moonshot-data/connectors-endpoints/broken.json''
           @ '': '' @ ''Expecting value: line 1 column 1 (char 0)''))
   \<and> path_exists example_fs (''x'' @ ''.json'') = Inr False
   \<and> path_exists example_fs (''x'' @ ''-connector.json'') = Inr False
   \<and> get_endpoint_config_from_file example_fs ''x'' = Inr JNull"
proof -
  have e: "path_exists example_fs (''claude'' @ ''.json'') = Inr False"
    "path_exists example_fs (''claude'' @ ''-connector.json'') = Inr True"
    "path_exists example_fs (''broken'' @ ''.json'') = Inr True"
    "path_exists example_fs (''x'' @ ''.json'') = Inr False"
    "path_exists example_fs (''x'' @ ''-connector.json'') = Inr False"
    by (simp_all add: example_fs_def utf8_length_def)
  have l: "json_load example_fs (''claude'' @ ''-connector.json'') = Inr (JObj example_config)"
    "json_load example_fs (''broken'' @ ''.json'')
       = Inl (ValueError ''Expecting value: line 1 column 1 (char 0)'')"
    by (simp_all add: example_fs_def utf8_length_def)
  have p: "path_str example_fs (''broken'' @ ''.json'')
      = ''/opt/revised-moonshot-data/connectors-endpoints/broken.json''"
    by (simp add: example_fs_def data_path_def)
  from get_endpoint_config_from_file_first_match [of example_fs "''claude''"] e l
  have a: "get_endpoint_config_from_file example_fs ''claude'' = Inr (JObj example_config)"
    by simp
  from get_endpoint_config_from_file_first_match [of example_fs "''broken''"] e l p
  have b: "get_endpoint_config_from_file example_fs ''broken''
       = Inl (RuntimeError (''Failed to load config from ''
           @ ''/opt/revised-moonshot-data/connectors-endpoints/broken.json''
           @ '': '' @ ''Expecting value: line 1 column 1 (char 0)''))"
    by simp
  from get_endpoint_config_from_file_first_match [of example_fs "''x''"] e
  have c: "get_endpoint_config_from_file example_fs ''x'' = Inr JNull"
    by simp
  from e a b c show ?thesis by simp
qed

text \<open>
  For an endpoint name of 256 characters neither file is in the directory, yet the loader
  does not return \<^verbatim>\<open>None\<close>: the first existence test raises \<^verbatim>\<open>OSError\<close> for the over-long
  file name, and that exception leaves the loader.
\<close>

theorem get_endpoint_config_from_file_long_name:
  "replicate 256 CHR ''a'' @ ''.json'' \<notin> set (data_dir_entries example_fs)
   \<and> replicate 256 CHR ''a'' @ ''-connector.json'' \<notin> set (data_dir_entries example_fs)
   \<and> get_endpoint_config_from_file example_fs (replicate 256 CHR ''a'')
       = Inl (file_name_too_long (replicate 256 CHR ''a'' @ ''.json''))
   \<and> get_endpoint_config_from_file example_fs (replicate 256 CHR ''a'') \<noteq> Inr JNull"
proof -
  have len: "utf8_length (replicate 256 CHR ''a'' @ ''.json'') = 261"
    by code_simp
  have "path_exists example_fs (replicate 256 CHR ''a'' @ ''.json'')
      = Inl (file_name_too_long (replicate 256 CHR ''a'' @ ''.json''))"
    by (simp add: example_fs_def len)
  then have r: "get_endpoint_config_from_file example_fs (replicate 256 CHR ''a'')
       = Inl (file_name_too_long (replicate 256 CHR ''a'' @ ''.json''))"
    by (simp add: get_endpoint_config_from_file_def)
  have short: "\<forall>x \<in> set (data_dir_entries example_fs). length x < 100"
    by (simp add: example_fs_def)
  have n1: "replicate 256 CHR ''a'' @ ''.json'' \<notin> set (data_dir_entries example_fs)"
  proof
    assume "replicate 256 CHR ''a'' @ ''.json'' \<in> set (data_dir_entries example_fs)"
    with short have "length (replicate 256 CHR ''a'' @ ''.json'') < 100" by blast
    then show False by simp
  qed
  have n2: "replicate 256 CHR ''a'' @ ''-connector.json'' \<notin> set (data_dir_entries example_fs)"
  proof
    assume "replicate 256 CHR ''a'' @ ''-connector.json'' \<in> set (data_dir_entries example_fs)"
    with short have "length (replicate 256 CHR ''a'' @ ''-connector.json'') < 100" by blast
    then show False by simp
  qed
  from n1 n2 r show ?thesis by simp
qed

lemma rfind_dot_json: "rfind CHR ''.'' (s @ ''.json'') = Some (length s)"
  by (induction s) simp_all

lemma stem_json: "s \<noteq> [] \<Longrightarrow> stem (s @ ''.json'') = s"
  by (simp add: stem_def rfind_dot_json)

lemma glob_json_stem:
  assumes "glob_json e" and "e \<noteq> ''.json''"
  shows "e = stem e @ ''.json''"
proof -
  from assms(1) obtain s where e: "e = s @ ''.json''"
    by (auto simp: glob_json_def suffix_def)
  with assms(2) have "s \<noteq> []" by auto
  with e show ?thesis by (simp add: stem_json)
qed

lemma stem_inj_on_json:
  assumes "''.json'' \<notin> set es"
  shows "inj_on stem (set (filter glob_json es))"
proof (rule inj_onI)
  fix a b
  assume a: "a \<in> set (filter glob_json es)" and b: "b \<in> set (filter glob_json es)"
    and eq: "stem a = stem b"
  from a assms have "a = stem a @ ''.json''"
    by (intro glob_json_stem) auto
  moreover from b assms have "b = stem b @ ''.json''"
    by (intro glob_json_stem) auto
  ultimately show "a = b"
    using eq by simp
qed

text \<open>
  C7, as the code has it. \<^verbatim>\<open>list_available_endpoint_configs\<close> returns the empty list when
  the data directory is absent. Otherwise it returns the stems of the entries matching
  \<^verbatim>\<open>*.json\<close>, one for each such entry, in ascending order. The result has no duplicates
  when the entries are distinct names and none of them is \<^verbatim>\<open>.json\<close> itself; every matching
  entry is then its stem followed by \<^verbatim>\<open>.json\<close>.
\<close>

theorem list_available_sorted_stems:
  "(\<not> data_dir_exists fs \<longrightarrow> list_available_endpoint_configs fs = [])
   \<and> (data_dir_exists fs \<longrightarrow>
        sorted (list_available_endpoint_configs fs)
        \<and> mset (list_available_endpoint_configs fs)
            = mset (map stem (filter glob_json (data_dir_entries fs))))
   \<and> (data_dir_exists fs \<and> distinct (data_dir_entries fs)
        \<and> ''.json'' \<notin> set (data_dir_entries fs) \<longrightarrow>
        distinct (list_available_endpoint_configs fs)
        \<and> (\<forall>e \<in> set (data_dir_entries fs). glob_json e \<longrightarrow> e = stem e @ ''.json''))"
proof -
  have "distinct (map stem (filter glob_json (data_dir_entries fs)))"
    if "distinct (data_dir_entries fs)" and "''.json'' \<notin> set (data_dir_entries fs)"
    using that stem_inj_on_json [of "data_dir_entries fs"] by (simp add: distinct_map)
  moreover have "\<forall>e \<in> set (data_dir_entries fs). glob_json e \<longrightarrow> e = stem e @ ''.json''"
    if "''.json'' \<notin> set (data_dir_entries fs)"
    using that by (auto intro!: glob_json_stem)
  ultimately show ?thesis
    by (simp add: list_available_endpoint_configs_def)
qed

theorem list_available_sorted_stems_witness:
  "data_dir_exists example_fs \<and> distinct (data_dir_entries example_fs)
   \<and> ''.json'' \<notin> set (data_dir_entries example_fs)
   \<and> list_available_endpoint_configs example_fs = [''broken'', ''claude-connector'', ''my-gpt4'']
   \<and> distinct (list_available_endpoint_configs example_fs)
   \<and> sorted (list_available_endpoint_configs example_fs)
   \<and> list_available_endpoint_configs (example_fs\<lparr>data_dir_exists := False\<rparr>) = []"
proof -
  have l: "list_available_endpoint_configs example_fs = [''broken'', ''claude-connector'', ''my-gpt4'']"
    by code_simp
  have p: "data_dir_exists example_fs \<and> distinct (data_dir_entries example_fs)
      \<and> ''.json'' \<notin> set (data_dir_entries example_fs)"
    by (simp add: example_fs_def)
  from list_available_sorted_stems [of example_fs] p
  have "distinct (list_available_endpoint_configs example_fs)
      \<and> sorted (list_available_endpoint_configs example_fs)"
    by blast
  moreover from list_available_sorted_stems [of "example_fs\<lparr>data_dir_exists := False\<rparr>"]
  have "list_available_endpoint_configs (example_fs\<lparr>data_dir_exists := False\<rparr>) = []"
    by simp
  ultimately show ?thesis
    using l p by blast
qed

text \<open>
  The stems of \<^verbatim>\<open>.json\<close> and \<^verbatim>\<open>.json.json\<close> are both \<^verbatim>\<open>.json\<close>: with these two entries
  in the directory the list has a duplicate.
\<close>

theorem list_available_duplicate_stems:
  "distinct [''.json'', ''.json.json'']
   \<and> list_available_endpoint_configs (example_fs\<lparr>data_dir_entries := [''.json'', ''.json.json'']\<rparr>)
       = [''.json'', ''.json'']
   \<and> \<not> distinct (list_available_endpoint_configs
         (example_fs\<lparr>data_dir_entries := [''.json'', ''.json.json'']\<rparr>))"
proof -
  have "list_available_endpoint_configs (example_fs\<lparr>data_dir_entries := [''.json'', ''.json.json'']\<rparr>)
       = [''.json'', ''.json'']"
    by code_simp
  then show ?thesis by simp
qed

section \<open>Properties of registration\<close>

lemma check_makes_no_creation: "\<not> list_ex is_create (fst (check_endpoint_exists b name))"
  by (simp add: check_endpoint_exists_def split: option.splits sum.splits)

lemma check_calls_cases:
  "fst (check_endpoint_exists b name) = [] \<or> fst (check_endpoint_exists b name) = [GetAllEndpoint]"
  by (simp add: check_endpoint_exists_def split: option.splits sum.splits)

lemma check_True_iff:
  "snd (check_endpoint_exists b name) = Inr True \<longleftrightarrow>
     import_api_get_all_endpoint b = None
     \<and> (\<exists>endpoints. api_get_all_endpoint b = Inr endpoints
           \<and> (\<exists>ep \<in> set endpoints. endpoint_matches name ep))"
  by (auto simp: check_endpoint_exists_def list_ex_iff split: option.splits sum.splits)

lemma check_False_calls:
  "snd (check_endpoint_exists b name) = Inr False \<Longrightarrow>
   fst (check_endpoint_exists b name) = [GetAllEndpoint]"
  by (auto simp: check_endpoint_exists_def split: option.splits sum.splits)

lemma register_endpoint_calls:
  "fst (register_endpoint b config) = []
   \<or> (\<exists>args. fst (register_endpoint b config) = [CreateEndpoint args])"
  by (simp add: register_endpoint_def split: option.splits sum.splits json.splits)

lemma by_name_already_registered:
  assumes "check_endpoint_exists b (JStr n) = (cs, Inr True)"
  shows "register_endpoint_by_name b fs n
           = (cs, Inr (''Endpoint '' @ quoted n @ '' already registered''))"
  using assms by (simp add: register_endpoint_by_name_def)

lemma custom_already_registered:
  assumes "check_endpoint_exists b (dict_get d ''name'' (JStr ''unknown'')) = (cs, Inr True)"
  shows "register_custom_endpoint b (JObj d)
           = (cs, Inr (''Endpoint '' @ quoted (py_str (dict_get d ''name'' (JStr ''unknown'')))
                       @ '' already registered''))"
  using assms by (simp add: register_custom_endpoint_def Let_def)

lemma by_name_creation:
  assumes "list_ex is_create (fst (register_endpoint_by_name b fs n))"
  shows "snd (check_endpoint_exists b (JStr n)) = Inr False
     \<and> (\<exists>args. fst (register_endpoint_by_name b fs n) = [GetAllEndpoint, CreateEndpoint args])"
proof (cases "check_endpoint_exists b (JStr n)")
  case (Pair cs r)
  have nc: "\<not> list_ex is_create cs"
    using check_makes_no_creation [of b "JStr n"] Pair by simp
  show ?thesis
  proof (cases r)
    case (Inl e)
    with Pair nc assms show ?thesis
      by (simp add: register_endpoint_by_name_def)
  next
    case (Inr found)
    show ?thesis
    proof (cases found)
      case True
      with Pair Inr nc assms show ?thesis
        by (simp add: register_endpoint_by_name_def)
    next
      case False
      with Pair Inr have chk: "check_endpoint_exists b (JStr n) = (cs, Inr False)" by simp
      then have cs: "cs = [GetAllEndpoint]"
        using check_False_calls [of b "JStr n"] by simp
      show ?thesis
      proof (cases "get_endpoint_config_from_file fs n")
        case (Inl e)
        with chk cs assms show ?thesis
          by (simp add: register_endpoint_by_name_def)
      next
        case cfg: (Inr config)
        show ?thesis
        proof (cases "py_truthy config")
          case False
          with chk cs cfg assms show ?thesis
            by (simp add: register_endpoint_by_name_def)
        next
          case True
          obtain cs' r' where reg: "register_endpoint b config = (cs', r')"
            by (cases "register_endpoint b config")
          from chk cfg True reg
          have calls: "fst (register_endpoint_by_name b fs n) = cs @ cs'"
            by (simp add: register_endpoint_by_name_def split: sum.splits)
          from register_endpoint_calls [of b config] reg
          have "cs' = [] \<or> (\<exists>args. cs' = [CreateEndpoint args])" by simp
          with assms calls cs obtain args where "cs' = [CreateEndpoint args]"
            by auto
          with calls cs chk show ?thesis by simp
        qed
      qed
    qed
  qed
qed

lemma custom_creation:
  assumes "list_ex is_create (fst (register_custom_endpoint b config))"
  shows "\<exists>d. config = JObj d
     \<and> snd (check_endpoint_exists b (dict_get d ''name'' (JStr ''unknown''))) = Inr False
     \<and> (\<exists>args. fst (register_custom_endpoint b config) = [GetAllEndpoint, CreateEndpoint args])"
proof (cases config)
  case (JObj d)
  let ?name = "dict_get d ''name'' (JStr ''unknown'')"
  obtain cs r where chk: "check_endpoint_exists b ?name = (cs, r)"
    by (cases "check_endpoint_exists b ?name")
  have nc: "\<not> list_ex is_create cs"
    using check_makes_no_creation [of b ?name] chk by simp
  have "r = Inr False"
  proof (cases r)
    case (Inl e)
    with JObj chk nc assms show ?thesis
      by (simp add: register_custom_endpoint_def Let_def)
  next
    case (Inr found)
    with JObj chk nc assms show ?thesis
      by (cases found) (simp_all add: register_custom_endpoint_def Let_def)
  qed
  with chk have chk: "check_endpoint_exists b ?name = (cs, Inr False)" by simp
  then have cs: "cs = [GetAllEndpoint]"
    using check_False_calls [of b ?name] by simp
  obtain cs' r' where reg: "register_endpoint b (JObj d) = (cs', r')"
    by (cases "register_endpoint b (JObj d)")
  from JObj chk reg have calls: "fst (register_custom_endpoint b config) = cs @ cs'"
    by (simp add: register_custom_endpoint_def Let_def split: sum.splits)
  from register_endpoint_calls [of b "JObj d"] reg
  have "cs' = [] \<or> (\<exists>args. cs' = [CreateEndpoint args])" by simp
  with assms calls cs obtain args where "cs' = [CreateEndpoint args]"
    by auto
  with calls cs chk JObj show ?thesis by simp
qed (use assms in \<open>simp_all add: register_custom_endpoint_def\<close>)

text \<open>
  C1. The existence check reports a name as present exactly when the backend lists an
  entry whose \<^verbatim>\<open>name\<close> or \<^verbatim>\<open>id\<close> equals it. When it does, \<^verbatim>\<open>register_endpoint_by_name\<close> and
  \<^verbatim>\<open>register_custom_endpoint\<close> return the message \<^verbatim>\<open>Endpoint '<name>' already registered\<close>
  and make no call to the creation API. Whenever either of them calls the creation API,
  the existence check has returned false, and the calls made are the listing first and
  the creation second.
\<close>

theorem registered_name_is_not_created:
  "(snd (check_endpoint_exists b name) = Inr True \<longleftrightarrow>
      import_api_get_all_endpoint b = None
      \<and> (\<exists>endpoints. api_get_all_endpoint b = Inr endpoints
            \<and> (\<exists>ep \<in> set endpoints. endpoint_matches name ep)))
   \<and> (check_endpoint_exists b (JStr n) = (cs, Inr True) \<longrightarrow>
        register_endpoint_by_name b fs n
          = (cs, Inr (''Endpoint '' @ quoted n @ '' already registered''))
        \<and> \<not> list_ex is_create (fst (register_endpoint_by_name b fs n)))
   \<and> (check_endpoint_exists b (dict_get d ''name'' (JStr ''unknown'')) = (cs, Inr True) \<longrightarrow>
        register_custom_endpoint b (JObj d)
          = (cs, Inr (''Endpoint '' @ quoted (py_str (dict_get d ''name'' (JStr ''unknown'')))
                      @ '' already registered''))
        \<and> \<not> list_ex is_create (fst (register_custom_endpoint b (JObj d))))
   \<and> (list_ex is_create (fst (register_endpoint_by_name b fs n)) \<longrightarrow>
        snd (check_endpoint_exists b (JStr n)) = Inr False
        \<and> (\<exists>args. fst (register_endpoint_by_name b fs n) = [GetAllEndpoint, CreateEndpoint args]))
   \<and> (list_ex is_create (fst (register_custom_endpoint b config)) \<longrightarrow>
        (\<exists>d'. config = JObj d'
           \<and> snd (check_endpoint_exists b (dict_get d' ''name'' (JStr ''unknown''))) = Inr False
           \<and> (\<exists>args. fst (register_custom_endpoint b config)
                        = [GetAllEndpoint, CreateEndpoint args])))"
proof (intro conjI impI)
  show "snd (check_endpoint_exists b name) = Inr True \<longleftrightarrow>
      import_api_get_all_endpoint b = None
      \<and> (\<exists>endpoints. api_get_all_endpoint b = Inr endpoints
            \<and> (\<exists>ep \<in> set endpoints. endpoint_matches name ep))"
    by (rule check_True_iff)
next
  assume a: "check_endpoint_exists b (JStr n) = (cs, Inr True)"
  then show r: "register_endpoint_by_name b fs n
          = (cs, Inr (''Endpoint '' @ quoted n @ '' already registered''))"
    by (rule by_name_already_registered)
  from check_makes_no_creation [of b "JStr n"] a
  show "\<not> list_ex is_create (fst (register_endpoint_by_name b fs n))"
    by (simp add: r)
next
  assume a: "check_endpoint_exists b (dict_get d ''name'' (JStr ''unknown'')) = (cs, Inr True)"
  then show r: "register_custom_endpoint b (JObj d)
          = (cs, Inr (''Endpoint '' @ quoted (py_str (dict_get d ''name'' (JStr ''unknown'')))
                      @ '' already registered''))"
    by (rule custom_already_registered)
  from check_makes_no_creation [of b "dict_get d ''name'' (JStr ''unknown'')"] a
  show "\<not> list_ex is_create (fst (register_custom_endpoint b (JObj d)))"
    by (simp add: r)
next
  assume a: "list_ex is_create (fst (register_endpoint_by_name b fs n))"
  from by_name_creation [OF a]
  show "snd (check_endpoint_exists b (JStr n)) = Inr False"
    and "\<exists>args. fst (register_endpoint_by_name b fs n) = [GetAllEndpoint, CreateEndpoint args]"
    by blast+
next
  assume "list_ex is_create (fst (register_custom_endpoint b config))"
  then show "\<exists>d'. config = JObj d'
           \<and> snd (check_endpoint_exists b (dict_get d' ''name'' (JStr ''unknown''))) = Inr False
           \<and> (\<exists>args. fst (register_custom_endpoint b config)
                        = [GetAllEndpoint, CreateEndpoint args])"
    by (rule custom_creation)
qed

theorem registered_name_is_not_created_witness:
  "check_endpoint_exists example_backend (JStr ''my-gpt4'') = ([GetAllEndpoint], Inr True)
   \<and> register_endpoint_by_name example_backend example_fs ''my-gpt4''
       = ([GetAllEndpoint], Inr (''Endpoint '' @ quoted ''my-gpt4'' @ '' already registered''))
   \<and> \<not> list_ex is_create (fst (register_endpoint_by_name example_backend example_fs ''my-gpt4''))
   \<and> check_endpoint_exists example_backend (dict_get [(''name'', JStr ''My GPT4'')] ''name''
         (JStr ''unknown'')) = ([GetAllEndpoint], Inr True)
   \<and> register_custom_endpoint example_backend (JObj [(''name'', JStr ''My GPT4'')])
       = ([GetAllEndpoint], Inr (''Endpoint '' @ quoted ''My GPT4'' @ '' already registered''))
   \<and> list_ex is_create (fst (register_endpoint_by_name example_backend example_fs ''claude''))
   \<and> snd (check_endpoint_exists example_backend (JStr ''claude'')) = Inr False"
proof -
  have c1: "check_endpoint_exists example_backend (JStr ''my-gpt4'') = ([GetAllEndpoint], Inr True)"
    by (simp add: check_endpoint_exists_def example_backend_def endpoint_matches_def dict_get_def)
  have c2: "check_endpoint_exists example_backend (dict_get [(''name'', JStr ''My GPT4'')] ''name''
         (JStr ''unknown'')) = ([GetAllEndpoint], Inr True)"
    by (simp add: check_endpoint_exists_def example_backend_def endpoint_matches_def dict_get_def)
  have c3: "list_ex is_create (fst (register_endpoint_by_name example_backend example_fs ''claude''))"
    by code_simp
  note t1 = registered_name_is_not_created [where b = example_backend and n = "''my-gpt4''"
      and cs = "[GetAllEndpoint]" and fs = example_fs and d = "[(''name'', JStr ''My GPT4'')]"]
  note t2 = registered_name_is_not_created [where b = example_backend and n = "''claude''"
      and fs = example_fs]
  from t1 c1 have a: "register_endpoint_by_name example_backend example_fs ''my-gpt4''
       = ([GetAllEndpoint], Inr (''Endpoint '' @ quoted ''my-gpt4'' @ '' already registered''))
     \<and> \<not> list_ex is_create (fst (register_endpoint_by_name example_backend example_fs ''my-gpt4''))"
    by blast
  from t1 c2 have b: "register_custom_endpoint example_backend (JObj [(''name'', JStr ''My GPT4'')])
       = ([GetAllEndpoint], Inr (''Endpoint '' @ quoted (py_str (dict_get
            [(''name'', JStr ''My GPT4'')] ''name'' (JStr ''unknown''))) @ '' already registered''))"
    by blast
  have n: "py_str (dict_get [(''name'', JStr ''My GPT4'')] ''name'' (JStr ''unknown'')) = ''My GPT4''"
    by (simp add: py_str_def dict_get_def)
  from t2 c3 have c: "snd (check_endpoint_exists example_backend (JStr ''claude'')) = Inr False"
    by blast
  from c1 c2 c3 a b c show ?thesis
    unfolding n by (intro conjI) simp_all
qed

lemma subscript_present: "map_of d k = Some v \<Longrightarrow> subscript d k = Inr v"
  by (simp add: subscript_def)

text \<open>After validation the creation call gets the supplied values, or the defaults.\<close>

lemma validated_create_args:
  assumes "validate_endpoint_config d = Inr d'"
  shows "\<exists>args. create_args_of d' = Inr args
     \<and> map_of d ''name'' = Some (arg_name args)
     \<and> map_of d ''connector_type'' = Some (arg_connector_type args)
     \<and> map_of d ''model'' = Some (arg_model args)
     \<and> arg_uri args = dict_get d ''uri'' (JStr [])
     \<and> arg_token args = dict_get d ''token'' (JStr [])
     \<and> arg_max_calls_per_second args = dict_get d ''max_calls_per_second'' (JInt 2)
     \<and> arg_max_concurrency args = dict_get d ''max_concurrency'' (JInt 1)
     \<and> arg_params args = dict_get d ''params'' (JObj [])"
proof -
  from assms have "\<forall>k \<in> set required_fields. dict_has d k"
    by (simp add: validate_Inr_iff)
  then obtain vn vc vm where req: "map_of d ''name'' = Some vn"
    "map_of d ''connector_type'' = Some vc" "map_of d ''model'' = Some vm"
    by (auto simp: required_fields_def dict_has_def)
  note m = map_of_validated [OF assms]
  have s1: "subscript d' ''name'' = Inr vn"
    by (rule subscript_present) (simp add: m req)
  have s2: "subscript d' ''connector_type'' = Inr vc"
    by (rule subscript_present) (simp add: m req)
  have s3: "subscript d' ''uri'' = Inr (dict_get d ''uri'' (JStr []))"
    by (rule subscript_present) (simp add: m dict_get_def split: option.splits)
  have s4: "subscript d' ''token'' = Inr (dict_get d ''token'' (JStr []))"
    by (rule subscript_present) (simp add: m dict_get_def split: option.splits)
  have s5: "subscript d' ''max_calls_per_second''
      = Inr (dict_get d ''max_calls_per_second'' (JInt 2))"
    by (rule subscript_present) (simp add: m dict_get_def split: option.splits)
  have s6: "subscript d' ''max_concurrency'' = Inr (dict_get d ''max_concurrency'' (JInt 1))"
    by (rule subscript_present) (simp add: m dict_get_def split: option.splits)
  have s7: "subscript d' ''model'' = Inr vm"
    by (rule subscript_present) (simp add: m req)
  have s8: "subscript d' ''params'' = Inr (dict_get d ''params'' (JObj []))"
    by (rule subscript_present) (simp add: m dict_get_def split: option.splits)
  have "create_args_of d' =
      Inr \<lparr>arg_name = vn, arg_connector_type = vc, arg_uri = dict_get d ''uri'' (JStr []),
           arg_token = dict_get d ''token'' (JStr []),
           arg_max_calls_per_second = dict_get d ''max_calls_per_second'' (JInt 2),
           arg_max_concurrency = dict_get d ''max_concurrency'' (JInt 1), arg_model = vm,
           arg_params = dict_get d ''params'' (JObj [])\<rparr>"
    unfolding create_args_of_def s1 s2 s3 s4 s5 s6 s7 s8 bind_exn_def by simp
  with req show ?thesis by simp
qed

text \<open>
  C8, as the code has it, for a configuration that is a dict. A failure of the backend
  import, or of the creation call, never leaves the registrar as it is: it is replaced by
  one \<^verbatim>\<open>RuntimeError\<close>. When the failure is an \<^verbatim>\<open>ImportError\<close> the message is the fixed text
  about the Moonshot modules followed by the text of the failure, without the endpoint's
  name. For any other failure the message is \<^verbatim>\<open>Failed to register endpoint '<name>': \<close>
  followed by the text of the failure, where the name is the configuration's \<^verbatim>\<open>name\<close>
  (\<^verbatim>\<open>unknown\<close> when the configuration has none).
\<close>

theorem register_endpoint_wraps_failures:
  "(import_api_create_endpoint b = Some e \<longrightarrow>
      register_endpoint b (JObj d) =
        ([], Inl (RuntimeError
           (if is_import_error e then
              ''Failed to import Moonshot modules. Is Moonshot backend installed? Error: ''
              @ str_exn e
            else ''Failed to register endpoint ''
              @ quoted (py_str (dict_get d ''name'' (JStr ''unknown''))) @ '': '' @ str_exn e))))
   \<and> (import_api_create_endpoint b = None \<and> validate_endpoint_config d = Inr d' \<longrightarrow>
        (\<exists>args. create_args_of d' = Inr args \<and> map_of d ''name'' = Some (arg_name args)
           \<and> (api_create_endpoint b args = Inl e \<longrightarrow>
                register_endpoint b (JObj d) =
                  ([CreateEndpoint args], Inl (RuntimeError
                     (if is_import_error e then
                        ''Failed to import Moonshot modules. Is Moonshot backend installed? Error: ''
                        @ str_exn e
                      else ''Failed to register endpoint ''
                        @ quoted (py_str (arg_name args)) @ '': '' @ str_exn e))))))"
proof (intro conjI impI)
  assume "import_api_create_endpoint b = Some e"
  then show "register_endpoint b (JObj d) =
        ([], Inl (RuntimeError
           (if is_import_error e then
              ''Failed to import Moonshot modules. Is Moonshot backend installed? Error: ''
              @ str_exn e
            else ''Failed to register endpoint ''
              @ quoted (py_str (dict_get d ''name'' (JStr ''unknown''))) @ '': '' @ str_exn e)))"
    by (simp add: register_endpoint_def register_handler_def)
next
  assume a: "import_api_create_endpoint b = None \<and> validate_endpoint_config d = Inr d'"
  then have v: "validate_endpoint_config d = Inr d'" and i: "import_api_create_endpoint b = None"
    by simp_all
  from validated_create_args [OF v] obtain args
    where args: "create_args_of d' = Inr args" and name: "map_of d ''name'' = Some (arg_name args)"
    by blast
  have name': "dict_get d' ''name'' (JStr ''unknown'') = arg_name args"
    by (simp add: dict_get_def map_of_validated [OF v] name)
  have "register_endpoint b (JObj d) =
                  ([CreateEndpoint args], Inl (RuntimeError
                     (if is_import_error e then
                        ''Failed to import Moonshot modules. Is Moonshot backend installed? Error: ''
                        @ str_exn e
                      else ''Failed to register endpoint ''
                        @ quoted (py_str (arg_name args)) @ '': '' @ str_exn e)))"
    if "api_create_endpoint b args = Inl e"
    using that i v args name'
    by (simp add: register_endpoint_def register_handler_def)
  with args name show "\<exists>args. create_args_of d' = Inr args \<and> map_of d ''name'' = Some (arg_name args)
           \<and> (api_create_endpoint b args = Inl e \<longrightarrow>
                register_endpoint b (JObj d) =
                  ([CreateEndpoint args], Inl (RuntimeError
                     (if is_import_error e then
                        ''Failed to import Moonshot modules. Is Moonshot backend installed? Error: ''
                        @ str_exn e
                      else ''Failed to register endpoint ''
                        @ quoted (py_str (arg_name args)) @ '': '' @ str_exn e))))"
    by blast
qed

theorem register_endpoint_wraps_failures_witness:
  "import_api_create_endpoint unimportable_backend
     = Some (ImportError (''No module named '' @ quoted ''moonshot''))
   \<and> register_endpoint unimportable_backend (JObj example_config)
       = ([], Inl (RuntimeError
            (''Failed to import Moonshot modules. Is Moonshot backend installed? Error: ''
             @ ''No module named '' @ quoted ''moonshot'')))
   \<and> import_api_create_endpoint refusing_backend = None
   \<and> (\<exists>args. arg_name args = JStr ''claude''
         \<and> api_create_endpoint refusing_backend args
             = Inl (OtherException ''connector type not found'')
         \<and> register_endpoint refusing_backend (JObj example_config)
             = ([CreateEndpoint args], Inl (RuntimeError
                  (''Failed to register endpoint '' @ quoted ''claude''
                   @ '': connector type not found''))))"
proof -
  let ?e = "ImportError (''No module named '' @ quoted ''moonshot'')"
  let ?d' = "example_config @ [(''uri'', JStr []), (''max_concurrency'', JInt 1),
                              (''params'', JObj [])]"
  have i: "import_api_create_endpoint unimportable_backend = Some ?e"
    by (simp add: unimportable_backend_def)
  from register_endpoint_wraps_failures [where b = unimportable_backend and e = ?e
      and d = example_config] i
  have r1: "register_endpoint unimportable_backend (JObj example_config)
       = ([], Inl (RuntimeError
            (''Failed to import Moonshot modules. Is Moonshot backend installed? Error: ''
             @ ''No module named '' @ quoted ''moonshot'')))"
    by simp
  have n: "import_api_create_endpoint refusing_backend = None"
    by (simp add: refusing_backend_def example_backend_def)
  have v: "validate_endpoint_config example_config = Inr ?d'"
    by (simp add: validate_endpoint_config_def required_fields_def example_config_def
        dict_has_def setdefault_def)
  have raises: "api_create_endpoint refusing_backend args
      = Inl (OtherException ''connector type not found'')" for args
    by (simp add: refusing_backend_def)
  from register_endpoint_wraps_failures [where b = refusing_backend and d = example_config
      and d' = ?d' and e = "OtherException ''connector type not found''"] n v
  obtain args where name: "map_of example_config ''name'' = Some (arg_name args)"
    and r2: "api_create_endpoint refusing_backend args
               = Inl (OtherException ''connector type not found'') \<longrightarrow>
             register_endpoint refusing_backend (JObj example_config)
               = ([CreateEndpoint args], Inl (RuntimeError
                    (''Failed to register endpoint '' @ quoted (py_str (arg_name args))
                     @ '': '' @ ''connector type not found'')))"
    by auto
  from name have name': "arg_name args = JStr ''claude''"
    by (simp add: example_config_def)
  from r2 raises name'
  have "register_endpoint refusing_backend (JObj example_config)
             = ([CreateEndpoint args], Inl (RuntimeError
                  (''Failed to register endpoint '' @ quoted ''claude''
                   @ '': connector type not found'')))"
    by (simp add: py_str_def)
  with name' raises have "\<exists>args. arg_name args = JStr ''claude''
         \<and> api_create_endpoint refusing_backend args
             = Inl (OtherException ''connector type not found'')
         \<and> register_endpoint refusing_backend (JObj example_config)
             = ([CreateEndpoint args], Inl (RuntimeError
                  (''Failed to register endpoint '' @ quoted ''claude''
                   @ '': connector type not found'')))"
    by blast
  with i r1 n show ?thesis by blast
qed

text \<open>
  With a backend that cannot be imported, the error raised for the configuration named
  \<^verbatim>\<open>claude\<close> is the import message, in which that name does not occur.
\<close>

theorem register_endpoint_import_failure_unnamed:
  "register_endpoint unimportable_backend (JObj example_config)
     = ([], Inl (RuntimeError
          (''Failed to import Moonshot modules. Is Moonshot backend installed? Error: ''
           @ ''No module named '' @ quoted ''moonshot'')))
   \<and> dict_get example_config ''name'' (JStr ''unknown'') = JStr ''claude''
   \<and> \<not> sublist ''claude''
         (''Failed to import Moonshot modules. Is Moonshot backend installed? Error: ''
          @ ''No module named '' @ quoted ''moonshot'')"
proof -
  have "register_endpoint unimportable_backend (JObj example_config)
     = ([], Inl (RuntimeError
          (''Failed to import Moonshot modules. Is Moonshot backend installed? Error: ''
           @ ''No module named '' @ quoted ''moonshot'')))"
    by (simp add: register_endpoint_def register_handler_def unimportable_backend_def)
  moreover have "dict_get example_config ''name'' (JStr ''unknown'') = JStr ''claude''"
    by (simp add: dict_get_def example_config_def)
  moreover have "\<not> sublist ''claude''
         (''Failed to import Moonshot modules. Is Moonshot backend installed? Error: ''
          @ ''No module named '' @ quoted ''moonshot'')"
    by code_simp
  ultimately show ?thesis by blast
qed

section \<open>Properties of the command line\<close>

lemma main_short: "length argv < 2 \<Longrightarrow>
  main json_loads b fs argv = \<lparr>stdout = usage_lines, stderr = [], exit_code = 1, calls = []\<rparr>"
  by (simp add: main_def)

lemma main_raised:
  assumes "2 \<le> length argv" and "run_command json_loads b fs argv = (cs, printed, Some e)"
  shows "main json_loads b fs argv =
    \<lparr>stdout = printed, stderr = [''ERROR: '' @ str_exn e], exit_code = 1, calls = cs\<rparr>"
  using assms by (simp add: main_def)

lemma main_returned:
  assumes "2 \<le> length argv" and "run_command json_loads b fs argv = (cs, printed, None)"
  shows "main json_loads b fs argv =
    \<lparr>stdout = printed, stderr = [], exit_code = 0, calls = cs\<rparr>"
  using assms by (simp add: main_def)

lemma register_name_only:
  "register_endpoint b (JObj [(''name'', JStr ''x'')]) =
     ([], Inl (case import_api_create_endpoint b of
                 Some e \<Rightarrow> register_handler (JObj [(''name'', JStr ''x'')]) e
               | None \<Rightarrow> RuntimeError (''Failed to register endpoint '' @ quoted ''x''
                   @ '': Missing required fields in endpoint config: [''
                   @ quoted ''connector_type'' @ '', '' @ quoted ''model'' @ '']'')))"
proof -
  have v: "validate_endpoint_config [(''name'', JStr ''x'')]
      = Inl (ValueError (''Missing required fields in endpoint config: [''
             @ quoted ''connector_type'' @ '', '' @ quoted ''model'' @ '']''))"
    by (simp add: validate_endpoint_config_def required_fields_def dict_has_def
        py_repr_str_def escape_char_def printable_def sq_def dq_def backslash_def quoted_def
        Let_def)
  show ?thesis
    by (simp add: register_endpoint_def v register_handler_def dict_get_def py_str_def
        split: option.splits)
qed

lemma custom_name_only:
  "register_custom_endpoint b (JObj [(''name'', JStr ''x'')]) =
     (case check_endpoint_exists b (JStr ''x'') of
        (cs, Inl e) \<Rightarrow> (cs, Inl e)
      | (cs, Inr True) \<Rightarrow> (cs, Inr (''Endpoint '' @ quoted ''x'' @ '' already registered''))
      | (cs, Inr False) \<Rightarrow>
          (cs, Inl (case import_api_create_endpoint b of
                 Some e \<Rightarrow> register_handler (JObj [(''name'', JStr ''x'')]) e
               | None \<Rightarrow> RuntimeError (''Failed to register endpoint '' @ quoted ''x''
                   @ '': Missing required fields in endpoint config: [''
                   @ quoted ''connector_type'' @ '', '' @ quoted ''model'' @ '']''))))"
  by (simp add: register_custom_endpoint_def dict_get_def py_str_def register_name_only
      split: prod.splits sum.splits bool.splits)

text \<open>
  C9, as the code has it. Let \<^verbatim>\<open>json.loads\<close> parse the text \<^verbatim>\<open>{"name":"x"}\<close> to the dict with the single key
  \<^verbatim>\<open>name\<close>. Then \<^verbatim>\<open>register-json\<close> on that text exits with code 1 unless the existence
  check reports \<^verbatim>\<open>x\<close> as registered. When the backend is in place (its directory exists,
  its functions import, the listing returns) and no listed entry has the name or id
  \<^verbatim>\<open>x\<close>, the run prints nothing on standard output, makes the listing call only, and
  reports on standard error that \<^verbatim>\<open>connector_type\<close> and \<^verbatim>\<open>model\<close> are missing.
\<close>

theorem register_json_name_only_fails:
  assumes "json_loads name_only_text = Inr (JObj [(''name'', JStr ''x'')])"
  shows "(snd (check_endpoint_exists b (JStr ''x'')) \<noteq> Inr True \<longrightarrow>
            exit_code (main json_loads b fs [prog, ''register-json'', name_only_text]) = 1)
     \<and> (moonshot_dir_exists fs \<and> import_api_get_all_endpoint b = None
          \<and> import_api_create_endpoint b = None
          \<and> api_get_all_endpoint b = Inr endpoints
          \<and> \<not> list_ex (endpoint_matches (JStr ''x'')) endpoints \<longrightarrow>
          main json_loads b fs [prog, ''register-json'', name_only_text] =
            \<lparr>stdout = [],
             stderr = [''ERROR: Failed to register endpoint '' @ quoted ''x''
                       @ '': Missing required fields in endpoint config: [''
                       @ quoted ''connector_type'' @ '', '' @ quoted ''model'' @ '']''],
             exit_code = 1, calls = [GetAllEndpoint]\<rparr>)"
proof (intro conjI impI)
  let ?argv = "[prog, ''register-json'', name_only_text]"
  assume nt: "snd (check_endpoint_exists b (JStr ''x'')) \<noteq> Inr True"
  obtain cs r where chk: "check_endpoint_exists b (JStr ''x'') = (cs, r)"
    by (cases "check_endpoint_exists b (JStr ''x'')")
  with nt have "r \<noteq> Inr True" by simp
  then have "\<exists>cs' e. register_custom_endpoint b (JObj [(''name'', JStr ''x'')]) = (cs', Inl e)"
    unfolding custom_name_only chk
    by (cases r) (auto split: bool.splits)
  then obtain cs' e where "register_custom_endpoint b (JObj [(''name'', JStr ''x'')]) = (cs', Inl e)"
    by blast
  with assms have "\<exists>cs p e. run_command json_loads b fs ?argv = (cs, p, Some e)"
    by (simp add: run_command_def add_moonshot_to_path_def)
  then obtain cs2 p2 e2 where "run_command json_loads b fs ?argv = (cs2, p2, Some e2)"
    by blast
  then show "exit_code (main json_loads b fs ?argv) = 1"
    by (simp add: main_def)
next
  let ?argv = "[prog, ''register-json'', name_only_text]"
  assume a: "moonshot_dir_exists fs \<and> import_api_get_all_endpoint b = None
          \<and> import_api_create_endpoint b = None
          \<and> api_get_all_endpoint b = Inr endpoints
          \<and> \<not> list_ex (endpoint_matches (JStr ''x'')) endpoints"
  then have chk: "check_endpoint_exists b (JStr ''x'') = ([GetAllEndpoint], Inr False)"
    by (simp add: check_endpoint_exists_def)
  from a have "register_custom_endpoint b (JObj [(''name'', JStr ''x'')]) =
      ([GetAllEndpoint], Inl (RuntimeError (''Failed to register endpoint '' @ quoted ''x''
                   @ '': Missing required fields in endpoint config: [''
                   @ quoted ''connector_type'' @ '', '' @ quoted ''model'' @ '']'')))"
    unfolding custom_name_only chk by simp
  with a assms have "run_command json_loads b fs ?argv =
      ([GetAllEndpoint], [], Some (RuntimeError (''Failed to register endpoint '' @ quoted ''x''
                   @ '': Missing required fields in endpoint config: [''
                   @ quoted ''connector_type'' @ '', '' @ quoted ''model'' @ '']'')))"
    by (simp add: run_command_def add_moonshot_to_path_def)
  then show "main json_loads b fs ?argv =
            \<lparr>stdout = [],
             stderr = [''ERROR: Failed to register endpoint '' @ quoted ''x''
                       @ '': Missing required fields in endpoint config: [''
                       @ quoted ''connector_type'' @ '', '' @ quoted ''model'' @ '']''],
             exit_code = 1, calls = [GetAllEndpoint]\<rparr>"
    by (simp add: main_def)
qed

theorem register_json_name_only_fails_witness:
  "example_json_loads name_only_text = Inr (JObj [(''name'', JStr ''x'')])
   \<and> moonshot_dir_exists example_fs
   \<and> \<not> list_ex (endpoint_matches (JStr ''x''))
         [[(''id'', JStr ''my-gpt4''), (''name'', JStr ''My GPT4''),
           (''connector_type'', JStr ''openai-connector''), (''model'', JStr ''gpt-4o'')]]
   \<and> main example_json_loads example_backend example_fs
        [''endpoint-manager.py'', ''register-json'', name_only_text] =
        \<lparr>stdout = [],
         stderr = [''ERROR: Failed to register endpoint '' @ quoted ''x''
                   @ '': Missing required fields in endpoint config: [''
                   @ quoted ''connector_type'' @ '', '' @ quoted ''model'' @ '']''],
         exit_code = 1, calls = [GetAllEndpoint]\<rparr>"
proof -
  have j: "example_json_loads name_only_text = Inr (JObj [(''name'', JStr ''x'')])"
    by (simp add: example_json_loads_def)
  have m: "\<not> list_ex (endpoint_matches (JStr ''x''))
         [[(''id'', JStr ''my-gpt4''), (''name'', JStr ''My GPT4''),
           (''connector_type'', JStr ''openai-connector''), (''model'', JStr ''gpt-4o'')]]"
    by (simp add: endpoint_matches_def dict_get_def)
  have e: "moonshot_dir_exists example_fs \<and> import_api_get_all_endpoint example_backend = None
      \<and> import_api_create_endpoint example_backend = None
      \<and> api_get_all_endpoint example_backend
          = Inr [[(''id'', JStr ''my-gpt4''), (''name'', JStr ''My GPT4''),
                  (''connector_type'', JStr ''openai-connector''), (''model'', JStr ''gpt-4o'')]]"
    by (simp add: example_fs_def example_backend_def)
  from register_json_name_only_fails [where json_loads = example_json_loads
      and b = example_backend and fs = example_fs and prog = "''endpoint-manager.py''"
      and endpoints = "[[(''id'', JStr ''my-gpt4''), (''name'', JStr ''My GPT4''),
           (''connector_type'', JStr ''openai-connector''), (''model'', JStr ''gpt-4o'')]]"] j e m
  have "main example_json_loads example_backend example_fs
        [''endpoint-manager.py'', ''register-json'', name_only_text] =
        \<lparr>stdout = [],
         stderr = [''ERROR: Failed to register endpoint '' @ quoted ''x''
                   @ '': Missing required fields in endpoint config: [''
                   @ quoted ''connector_type'' @ '', '' @ quoted ''model'' @ '']''],
         exit_code = 1, calls = [GetAllEndpoint]\<rparr>"
    by blast
  with j e m show ?thesis by blast
qed

text \<open>
  With the backend whose module lacks the creation function, no endpoint named \<^verbatim>\<open>x\<close> is
  registered, and \<^verbatim>\<open>register-json\<close> on the text \<^verbatim>\<open>{"name":"x"}\<close> fails with the import
  error: the import comes before validation, and the missing fields are not reported.
\<close>

theorem register_json_name_only_import_error:
  "example_json_loads name_only_text = Inr (JObj [(''name'', JStr ''x'')])
   \<and> snd (check_endpoint_exists listing_only_backend (JStr ''x'')) = Inr False
   \<and> main example_json_loads listing_only_backend example_fs
        [''endpoint-manager.py'', ''register-json'', name_only_text] =
        \<lparr>stdout = [],
         stderr = [''ERROR: Failed to import Moonshot modules. Is Moonshot backend installed? ''
                   @ ''Error: cannot import name '' @ quoted ''api_create_endpoint''
                   @ '' from '' @ quoted ''moonshot.src.api.api_connector_endpoint''
                   @ '' (/opt/revised-moonshot/moonshot/src/api/api_connector_endpoint.py)''],
         exit_code = 1, calls = [GetAllEndpoint]\<rparr>
   \<and> \<not> sublist ''Missing required fields''
         (''ERROR: Failed to import Moonshot modules. Is Moonshot backend installed? ''
          @ ''Error: cannot import name '' @ quoted ''api_create_endpoint''
          @ '' from '' @ quoted ''moonshot.src.api.api_connector_endpoint''
          @ '' (/opt/revised-moonshot/moonshot/src/api/api_connector_endpoint.py)'')"
proof -
  have j: "example_json_loads name_only_text = Inr (JObj [(''name'', JStr ''x'')])"
    by (simp add: example_json_loads_def)
  have c: "check_endpoint_exists listing_only_backend (JStr ''x'') = ([GetAllEndpoint], Inr False)"
    by (simp add: check_endpoint_exists_def listing_only_backend_def example_backend_def
        endpoint_matches_def dict_get_def)
  have r: "register_custom_endpoint listing_only_backend (JObj [(''name'', JStr ''x'')])
      = ([GetAllEndpoint], Inl (RuntimeError
           (''Failed to import Moonshot modules. Is Moonshot backend installed? ''
            @ ''Error: cannot import name '' @ quoted ''api_create_endpoint''
            @ '' from '' @ quoted ''moonshot.src.api.api_connector_endpoint''
            @ '' (/opt/revised-moonshot/moonshot/src/api/api_connector_endpoint.py)'')))"
    unfolding custom_name_only c
    by (simp add: listing_only_backend_def register_handler_def)
  have m: "main example_json_loads listing_only_backend example_fs
        [''endpoint-manager.py'', ''register-json'', name_only_text] =
        \<lparr>stdout = [],
         stderr = [''ERROR: Failed to import Moonshot modules. Is Moonshot backend installed? ''
                   @ ''Error: cannot import name '' @ quoted ''api_create_endpoint''
                   @ '' from '' @ quoted ''moonshot.src.api.api_connector_endpoint''
                   @ '' (/opt/revised-moonshot/moonshot/src/api/api_connector_endpoint.py)''],
         exit_code = 1, calls = [GetAllEndpoint]\<rparr>"
    by (simp add: main_def run_command_def add_moonshot_to_path_def j r example_fs_def)
  have s: "\<not> sublist ''Missing required fields''
         (''ERROR: Failed to import Moonshot modules. Is Moonshot backend installed? ''
          @ ''Error: cannot import name '' @ quoted ''api_create_endpoint''
          @ '' from '' @ quoted ''moonshot.src.api.api_connector_endpoint''
          @ '' (/opt/revised-moonshot/moonshot/src/api/api_connector_endpoint.py)'')"
    by code_simp
  from j c m s show ?thesis by simp
qed


lemma run_command_wrong_count:
  assumes "moonshot_dir_exists fs" and "length argv \<noteq> 3"
  shows "argv ! 1 = ''register'' \<Longrightarrow> run_command json_loads b fs argv =
           ([], [], Some (ValueError ''Usage: register <endpoint_name>''))"
    and "argv ! 1 = ''register-json'' \<Longrightarrow> run_command json_loads b fs argv =
           ([], [], Some (ValueError ''Usage: register-json <json_config>''))"
    and "argv ! 1 = ''check'' \<Longrightarrow> run_command json_loads b fs argv =
           ([], [], Some (ValueError ''Usage: check <endpoint_name>''))"
  using assms by (simp_all add: run_command_def add_moonshot_to_path_def)

lemma run_command_list_available:
  assumes "moonshot_dir_exists fs" and "argv ! 1 = ''list-available''"
  shows "run_command json_loads b fs argv =
           ([], ''Available endpoint configurations:''
                # map (\<lambda>config. ''  - '' @ config) (list_available_endpoint_configs fs), None)"
  using assms by (simp add: run_command_def add_moonshot_to_path_def)







text \<open>
  C4, as the code has it. An invocation without any argument (\<^verbatim>\<open>sys.argv\<close> shorter than
  2) prints the usage text on standard output and exits with code 1. With exactly one
  argument and the backend directory in place, the commands \<^verbatim>\<open>register\<close>,
  \<^verbatim>\<open>register-json\<close> and \<^verbatim>\<open>check\<close> report their own usage line on standard error and exit
  with code 1, whereas \<^verbatim>\<open>list-available\<close> needs no further argument: it prints the list
  and exits with code 0.
\<close>

theorem main_usage_errors:
  "(length argv < 2 \<longrightarrow>
      main json_loads b fs argv =
        \<lparr>stdout = usage_lines, stderr = [], exit_code = 1, calls = []\<rparr>)
   \<and> (length argv = 2 \<and> moonshot_dir_exists fs \<and> argv ! 1 = ''register'' \<longrightarrow>
        main json_loads b fs argv =
          \<lparr>stdout = [], stderr = [''ERROR: Usage: register <endpoint_name>''], exit_code = 1,
           calls = []\<rparr>)
   \<and> (length argv = 2 \<and> moonshot_dir_exists fs \<and> argv ! 1 = ''register-json'' \<longrightarrow>
        main json_loads b fs argv =
          \<lparr>stdout = [], stderr = [''ERROR: Usage: register-json <json_config>''], exit_code = 1,
           calls = []\<rparr>)
   \<and> (length argv = 2 \<and> moonshot_dir_exists fs \<and> argv ! 1 = ''check'' \<longrightarrow>
        main json_loads b fs argv =
          \<lparr>stdout = [], stderr = [''ERROR: Usage: check <endpoint_name>''], exit_code = 1,
           calls = []\<rparr>)
   \<and> (length argv = 2 \<and> moonshot_dir_exists fs \<and> argv ! 1 = ''list-available'' \<longrightarrow>
        main json_loads b fs argv =
          \<lparr>stdout = ''Available endpoint configurations:''
                    # map (\<lambda>config. ''  - '' @ config) (list_available_endpoint_configs fs),
           stderr = [], exit_code = 0, calls = []\<rparr>)"
proof (intro conjI impI)
  assume "length argv < 2"
  then show "main json_loads b fs argv =
        \<lparr>stdout = usage_lines, stderr = [], exit_code = 1, calls = []\<rparr>"
    by (rule main_short)
next
  assume a: "length argv = 2 \<and> moonshot_dir_exists fs \<and> argv ! 1 = ''register''"
  then have "run_command json_loads b fs argv =
      ([], [], Some (ValueError ''Usage: register <endpoint_name>''))"
    by (intro run_command_wrong_count) simp_all
  with a show "main json_loads b fs argv =
          \<lparr>stdout = [], stderr = [''ERROR: Usage: register <endpoint_name>''], exit_code = 1,
           calls = []\<rparr>"
    by (simp add: main_raised)
next
  assume a: "length argv = 2 \<and> moonshot_dir_exists fs \<and> argv ! 1 = ''register-json''"
  then have "run_command json_loads b fs argv =
      ([], [], Some (ValueError ''Usage: register-json <json_config>''))"
    by (intro run_command_wrong_count) simp_all
  with a show "main json_loads b fs argv =
          \<lparr>stdout = [], stderr = [''ERROR: Usage: register-json <json_config>''], exit_code = 1,
           calls = []\<rparr>"
    by (simp add: main_raised)
next
  assume a: "length argv = 2 \<and> moonshot_dir_exists fs \<and> argv ! 1 = ''check''"
  then have "run_command json_loads b fs argv =
      ([], [], Some (ValueError ''Usage: check <endpoint_name>''))"
    by (intro run_command_wrong_count) simp_all
  with a show "main json_loads b fs argv =
          \<lparr>stdout = [], stderr = [''ERROR: Usage: check <endpoint_name>''], exit_code = 1,
           calls = []\<rparr>"
    by (simp add: main_raised)
next
  assume a: "length argv = 2 \<and> moonshot_dir_exists fs \<and> argv ! 1 = ''list-available''"
  then have "run_command json_loads b fs argv =
           ([], ''Available endpoint configurations:''
                # map (\<lambda>config. ''  - '' @ config) (list_available_endpoint_configs fs), None)"
    by (intro run_command_list_available) simp_all
  with a show "main json_loads b fs argv =
          \<lparr>stdout = ''Available endpoint configurations:''
                    # map (\<lambda>config. ''  - '' @ config) (list_available_endpoint_configs fs),
           stderr = [], exit_code = 0, calls = []\<rparr>"
    by (simp add: main_returned)
qed

theorem main_usage_errors_witness:
  "length [''endpoint-manager.py''] < 2
   \<and> main example_json_loads example_backend example_fs [''endpoint-manager.py'']
       = \<lparr>stdout = usage_lines, stderr = [], exit_code = 1, calls = []\<rparr>
   \<and> length [''endpoint-manager.py'', ''register''] = 2
   \<and> moonshot_dir_exists example_fs
   \<and> main example_json_loads example_backend example_fs [''endpoint-manager.py'', ''register'']
       = \<lparr>stdout = [], stderr = [''ERROR: Usage: register <endpoint_name>''], exit_code = 1,
          calls = []\<rparr>"
  using main_usage_errors [of "[''endpoint-manager.py'']" example_json_loads example_backend
      example_fs]
    main_usage_errors [of "[''endpoint-manager.py'', ''register'']" example_json_loads
      example_backend example_fs]
  by (simp add: example_fs_def)

text \<open>
  One argument is enough for \<^verbatim>\<open>list-available\<close>: the run prints the list, not the usage
  text, and exits with code 0.
\<close>

theorem main_one_argument_succeeds:
  "length [''endpoint-manager.py'', ''list-available''] = 2
   \<and> main example_json_loads example_backend example_fs
        [''endpoint-manager.py'', ''list-available'']
       = \<lparr>stdout = [''Available endpoint configurations:'', ''  - broken'',
                     ''  - claude-connector'', ''  - my-gpt4''],
          stderr = [], exit_code = 0, calls = []\<rparr>
   \<and> exit_code (main example_json_loads example_backend example_fs
        [''endpoint-manager.py'', ''list-available'']) \<noteq> 1"
proof -
  have l: "list_available_endpoint_configs example_fs
      = [''broken'', ''claude-connector'', ''my-gpt4'']"
    by code_simp
  have d: "moonshot_dir_exists example_fs"
    by (simp add: example_fs_def)
  have "run_command example_json_loads example_backend example_fs
        [''endpoint-manager.py'', ''list-available'']
      = ([], [''Available endpoint configurations:'', ''  - broken'',
              ''  - claude-connector'', ''  - my-gpt4''], None)"
    using run_command_list_available [OF d, of "[''endpoint-manager.py'', ''list-available'']"
        example_json_loads example_backend]
    by (simp add: l)
  then show ?thesis
    by (simp add: main_returned)
qed






















end
